theory Spec2Isabelle
  imports Complex_Main "HOL-Library.Multiset"
begin

section \<open>Numbers and strings of the host language\<close>

text \<open>
  The script \<^verbatim>\<open>aoc-times.ts\<close> works on JavaScript numbers that hold integers: epoch
  seconds, scores, star counts, day numbers. They are modelled by \<^typ>\<open>int\<close>; sums of
  such values stay far below \<open>2 ^ 53\<close>, where the arithmetic of doubles is exact.
  The only non-integer value of the script is the quotient \<^verbatim>\<open>p1Total / p1Count\<close>, which
  is modelled by an exact rational (see \<open>average\<close> below).
\<close>

text \<open>\<^verbatim>\<open>Number.prototype.toString\<close> on an integer: its decimal digits, with a minus sign.\<close>

definition digit_char :: "nat \<Rightarrow> char" where
  "digit_char n = ''0123456789'' ! (n mod 10)"

fun nat_toString :: "nat \<Rightarrow> string" where
  "nat_toString n =
     (if n < 10 then [digit_char n] else nat_toString (n div 10) @ [digit_char n])"

declare nat_toString.simps [simp del]

definition toString :: "int \<Rightarrow> string" where
  "toString i = (if i < 0 then ''-'' @ nat_toString (nat (- i)) else nat_toString (nat i))"

text \<open>
  The remainder operator \<^verbatim>\<open>%\<close>: the result has the sign of the dividend (truncated
  division), unlike \<open>mod\<close> of HOL, which has the sign of the divisor.
\<close>

definition js_rem :: "int \<Rightarrow> int \<Rightarrow> int" where
  "js_rem a b = sgn a * (\<bar>a\<bar> mod \<bar>b\<bar>)"

text \<open>
  \<^verbatim>\<open>Math.floor(a / b)\<close> for integers \<open>a\<close> and a positive integer \<open>b\<close>: the quotient
  rounded towards minus infinity.
\<close>

definition floor_div :: "int \<Rightarrow> int \<Rightarrow> int" where
  "floor_div a b = \<lfloor>(of_int a :: rat) / of_int b\<rfloor>"

text \<open>\<^verbatim>\<open>String.prototype.padStart\<close>, \<^verbatim>\<open>padEnd\<close> with a blank, and \<^verbatim>\<open>slice(0, n)\<close>.\<close>

definition padStart :: "nat \<Rightarrow> string \<Rightarrow> string" where
  "padStart n s = replicate (n - length s) CHR '' '' @ s"

definition padEnd :: "nat \<Rightarrow> string \<Rightarrow> string" where
  "padEnd n s = s @ replicate (n - length s) CHR '' ''"

definition slice0 :: "nat \<Rightarrow> string \<Rightarrow> string" where
  "slice0 n s = take n s"

section \<open>Constants and unlock instants\<close>

definition DAY_1_UNLOCK :: int where
  "DAY_1_UNLOCK = 1764565200"

definition SECONDS_PER_DAY :: int where
  "SECONDS_PER_DAY = 86400"

definition getPuzzleUnlock :: "int \<Rightarrow> int" where
  "getPuzzleUnlock day = DAY_1_UNLOCK + (day - 1) * SECONDS_PER_DAY"

section \<open>Formatting a duration\<close>

definition formatDuration :: "int \<Rightarrow> string" where
  "formatDuration seconds =
     (if seconds < 0 then ''N/A''
      else
        let days = floor_div seconds 86400;
            hours = floor_div (js_rem seconds 86400) 3600;
            mins = floor_div (js_rem seconds 3600) 60;
            secs = js_rem seconds 60
        in if days > 0 then
             toString days @ ''d '' @ toString hours @ ''h '' @ toString mins @ ''m''
           else if hours > 0 then
             toString hours @ ''h '' @ toString mins @ ''m '' @ toString secs @ ''s''
           else if mins > 0 then
             toString mins @ ''m '' @ toString secs @ ''s''
           else
             toString secs @ ''s'')"

text \<open>
  The rendering rule in the words of the specification: the whole days, hours, minutes
  and seconds of a non-negative duration (24h/60m/60s), each taken from what remains
  after the larger units are extracted, and of these the coarsest non-zero unit with
  the next two smaller ones, seconds being dropped when there are days.
\<close>

definition spec_days :: "int \<Rightarrow> int" where
  "spec_days s = s div 86400"

definition spec_hours :: "int \<Rightarrow> int" where
  "spec_hours s = (s - 86400 * spec_days s) div 3600"

definition spec_mins :: "int \<Rightarrow> int" where
  "spec_mins s = (s - 86400 * spec_days s - 3600 * spec_hours s) div 60"

definition spec_secs :: "int \<Rightarrow> int" where
  "spec_secs s = s - 86400 * spec_days s - 3600 * spec_hours s - 60 * spec_mins s"

definition spec_formatDuration :: "int \<Rightarrow> string" where
  "spec_formatDuration s =
     (if s < 0 then ''N/A''
      else if spec_days s \<noteq> 0 then
        toString (spec_days s) @ ''d '' @ toString (spec_hours s) @ ''h '' @
        toString (spec_mins s) @ ''m''
      else if spec_hours s \<noteq> 0 then
        toString (spec_hours s) @ ''h '' @ toString (spec_mins s) @ ''m '' @
        toString (spec_secs s) @ ''s''
      else if spec_mins s \<noteq> 0 then
        toString (spec_mins s) @ ''m '' @ toString (spec_secs s) @ ''s''
      else toString (spec_secs s) @ ''s'')"

section \<open>The leaderboard payload\<close>

text \<open>
  The value of \<^verbatim>\<open>completion_day_level[day]\<close>: the \<^verbatim>\<open>get_star_ts\<close> of part \<^verbatim>\<open>'1'\<close> and of
  part \<^verbatim>\<open>'2'\<close>, each of which may be missing.
\<close>

record DayLevel =
  star1 :: "int option"
  star2 :: "int option"

text \<open>
  A member of the payload. The service sends \<^verbatim>\<open>null\<close> as the name of an anonymous user,
  hence the option. \<^verbatim>\<open>completion_day_level\<close> is read at the key \<^verbatim>\<open>day.toString()\<close> only,
  so it is a partial map from the day number.
\<close>

record Member =
  id_m :: int
  name :: "string option"
  stars :: int
  local_score :: int
  last_star_ts :: int
  completion_day_level :: "int \<rightharpoonup> DayLevel"

text \<open>
  An own property key of an ordinary object is either an array index (a canonical
  decimal string below \<open>2 ^ 32 - 1\<close>, held here by its value) or any other string.
  The object \<^verbatim>\<open>members\<close> is the list of its properties in creation order, which for the
  result of \<^verbatim>\<open>JSON.parse\<close> is the order of the document; its keys are distinct.
\<close>

datatype prop_key = Index nat | Name string

text \<open>
  The parsed body is not validated by the script: \<open>members\<close> is \<open>None\<close> when the
  document has no such field.
\<close>

record LeaderboardData =
  event :: string
  owner_id :: int
  members :: "(prop_key \<times> Member) list option"
  num_days :: int
  day1_ts :: int

text \<open>
  \<^verbatim>\<open>Object.values\<close>: the values of the array-index keys in ascending numeric order, then
  those of the other keys in creation order.
\<close>

fun is_index :: "prop_key \<Rightarrow> bool" where
  "is_index (Index i) = True"
| "is_index (Name s) = False"

fun index_of :: "prop_key \<Rightarrow> nat" where
  "index_of (Index i) = i"
| "index_of (Name s) = 0"

definition Object_values :: "(prop_key \<times> 'a) list \<Rightarrow> 'a list" where
  "Object_values ps =
     map snd (sort_key (\<lambda>p. index_of (fst p)) (filter (\<lambda>p. is_index (fst p)) ps)) @
     map snd (filter (\<lambda>p. \<not> is_index (fst p)) ps)"

section \<open>Sorting\<close>

text \<open>
  \<^verbatim>\<open>Array.prototype.sort\<close> with a comparator: the sort is stable, an element \<open>a\<close> goes
  before \<open>b\<close> when the comparator is negative on \<open>(a, b)\<close>, and elements that compare
  as equal keep their order. Both comparators of the script are consistent, so the
  result is the one of a stable insertion sort.
\<close>

fun insert_by :: "('a \<Rightarrow> 'a \<Rightarrow> int) \<Rightarrow> 'a \<Rightarrow> 'a list \<Rightarrow> 'a list" where
  "insert_by cmp x [] = [x]"
| "insert_by cmp x (y # ys) =
     (if cmp x y \<le> 0 then x # y # ys else y # insert_by cmp x ys)"

definition js_sort :: "('a \<Rightarrow> 'a \<Rightarrow> int) \<Rightarrow> 'a list \<Rightarrow> 'a list" where
  "js_sort cmp xs = foldr (insert_by cmp) xs []"

text \<open>The comparator of the overall table.\<close>

definition compare_members :: "Member \<Rightarrow> Member \<Rightarrow> int" where
  "compare_members a b =
     (if local_score b \<noteq> local_score a then local_score b - local_score a
      else if stars b \<noteq> stars a then stars b - stars a
      else last_star_ts a - last_star_ts b)"

definition sorted_members :: "(prop_key \<times> Member) list \<Rightarrow> Member list" where
  "sorted_members ps = js_sort compare_members (Object_values ps)"

section \<open>Solve times of a member\<close>

record DayTimes =
  part1 :: "int option"
  part2 :: "int option"

record MemberStats =
  name_s :: string
  score :: int
  stars_s :: int
  times_s :: "int \<rightharpoonup> DayTimes"

text \<open>
  \<^verbatim>\<open>partTs ? partTs - unlock : null\<close>: the test is one of truthiness, which a missing
  timestamp and the timestamp \<open>0\<close> both fail.
\<close>

definition offset :: "int option \<Rightarrow> int \<Rightarrow> int option" where
  "offset partTs unlock =
     (case partTs of
        None \<Rightarrow> None
      | Some ts \<Rightarrow> if ts \<noteq> 0 then Some (ts - unlock) else None)"

definition set_times :: "Member \<Rightarrow> int \<Rightarrow> (int \<rightharpoonup> DayTimes) \<Rightarrow> (int \<rightharpoonup> DayTimes)" where
  "set_times member day tm =
     (let unlock = getPuzzleUnlock day in
      case completion_day_level member day of
        None \<Rightarrow> tm
      | Some dayData \<Rightarrow>
          tm(day \<mapsto> \<lparr>part1 = offset (star1 dayData) unlock,
                      part2 = offset (star2 dayData) unlock\<rparr>))"

definition member_times :: "Member \<Rightarrow> int \<Rightarrow> (int \<rightharpoonup> DayTimes)" where
  "member_times member n = fold (set_times member) [1..n] Map.empty"

definition display_name :: "Member \<Rightarrow> string" where
  "display_name member =
     (case name member of
        None \<Rightarrow> ''Anonymous #'' @ toString (id_m member)
      | Some s \<Rightarrow> if s = [] then ''Anonymous #'' @ toString (id_m member) else s)"

definition member_stats :: "int \<Rightarrow> Member \<Rightarrow> MemberStats" where
  "member_stats n member =
     \<lparr>name_s = display_name member, score = local_score member,
      stars_s = stars member, times_s = member_times member n\<rparr>"

definition build_memberStats :: "Member list \<Rightarrow> int \<Rightarrow> MemberStats list" where
  "build_memberStats ms n = map (member_stats n) ms"

section \<open>Averages of a day\<close>

text \<open>\<^verbatim>\<open>m.times.get(day)?.part1\<close>, with \<^verbatim>\<open>undefined\<close> and \<^verbatim>\<open>null\<close> both read as absent.\<close>

definition get_part1 :: "MemberStats \<Rightarrow> int \<Rightarrow> int option" where
  "get_part1 m day = (case times_s m day of None \<Rightarrow> None | Some t \<Rightarrow> part1 t)"

definition get_part2 :: "MemberStats \<Rightarrow> int \<Rightarrow> int option" where
  "get_part2 m day = (case times_s m day of None \<Rightarrow> None | Some t \<Rightarrow> part2 t)"

text \<open>A running total with its count, and one step of the inner loop for one part.\<close>

fun add_sample :: "int option \<Rightarrow> int \<times> int \<Rightarrow> int \<times> int" where
  "add_sample None (tot, cnt) = (tot, cnt)"
| "add_sample (Some v) (tot, cnt) = (tot + v, cnt + 1)"

definition day_totals :: "MemberStats list \<Rightarrow> int \<Rightarrow> (int \<times> int) \<times> (int \<times> int)" where
  "day_totals stats day =
     fold (\<lambda>m (p1, p2). (add_sample (get_part1 m day) p1, add_sample (get_part2 m day) p2))
       stats ((0, 0), (0, 0))"

text \<open>
  \<^verbatim>\<open>Math.round\<close>: the nearest integer, a tie going to the larger one. The quotient of
  the script is a double; it is exact here, which agrees with the double as long as
  the total stays below \<open>2 ^ 52\<close>.
\<close>

definition Math_round :: "rat \<Rightarrow> int" where
  "Math_round x = \<lfloor>x + 1 / 2\<rfloor>"

fun average :: "int \<times> int \<Rightarrow> int option" where
  "average (tot, cnt) =
     (if cnt > 0 then Some (Math_round (of_int tot / of_int cnt)) else None)"

record DayAverage =
  avgP1 :: "int option"
  avgP2 :: "int option"

definition day_average :: "MemberStats list \<Rightarrow> int \<Rightarrow> DayAverage" where
  "day_average stats day =
     (case day_totals stats day of
        (p1, p2) \<Rightarrow> \<lparr>avgP1 = average p1, avgP2 = average p2\<rparr>)"

definition dayAverages :: "MemberStats list \<Rightarrow> int \<Rightarrow> (int \<rightharpoonup> DayAverage)" where
  "dayAverages stats n =
     fold (\<lambda>day avgs. avgs(day \<mapsto> day_average stats day)) [1..n] Map.empty"

text \<open>
  The two rounding rules that the specification names, in its words: a mean is rounded
  to the nearest integer, and a mean that lies exactly halfway between two integers
  goes away from zero, or to the even one of the two.
\<close>

definition round_half_away_from_zero :: "rat \<Rightarrow> int" where
  "round_half_away_from_zero x = (if 0 \<le> x then \<lfloor>x + 1 / 2\<rfloor> else \<lceil>x - 1 / 2\<rceil>)"

definition round_half_to_even :: "rat \<Rightarrow> int" where
  "round_half_to_even x =
     (if x - of_int \<lfloor>x\<rfloor> < 1 / 2 then \<lfloor>x\<rfloor>
      else if x - of_int \<lfloor>x\<rfloor> > 1 / 2 then \<lfloor>x\<rfloor> + 1
      else if even \<lfloor>x\<rfloor> then \<lfloor>x\<rfloor> else \<lfloor>x\<rfloor> + 1)"

section \<open>Output\<close>

text \<open>
  What the script writes, one value for each \<^verbatim>\<open>console.log\<close> or \<^verbatim>\<open>console.error\<close> call
  whose text depends on the data, and one for each block of fixed border lines:
  the frame lines, the separator \<open>\<cdot>\<close> of the summary line and the two star glyphs are
  outside ASCII and are not spelled out. \<open>Fetch\<close> records the outbound request.
\<close>

datatype js_error = SyntaxError | TypeError | RangeError

datatype glyph = FilledStar | HollowStar

datatype written =
    Log string
  | ConsoleError string
  | ConsoleErrorValue js_error
  | Fetch string
  | Summary string nat int
  | LeaderboardHeader
  | LeaderboardRow string string string "glyph list"
  | LeaderboardFooter
  | DayHeader int
  | DayRow string string string string
  | DayAverageRow string string

text \<open>\<^verbatim>\<open>String.prototype.repeat\<close> of a one-glyph string: a negative count throws.\<close>

definition repeat :: "'a \<Rightarrow> int \<Rightarrow> js_error + 'a list" where
  "repeat c n = (if n < 0 then Inl RangeError else Inr (replicate (nat n) c))"

subsection \<open>The overall table\<close>

definition leaderboard_row :: "int \<Rightarrow> nat \<Rightarrow> MemberStats \<Rightarrow> js_error + written" where
  "leaderboard_row n i m =
     (let rank = padStart 4 (toString (int i + 1));
          nm = padEnd 24 (slice0 24 (name_s m));
          sc = padStart 7 (toString (score m))
      in case repeat FilledStar (stars_s m) of
           Inl e \<Rightarrow> Inl e
         | Inr filled \<Rightarrow>
             (case repeat HollowStar (n * 2 - stars_s m) of
                Inl e \<Rightarrow> Inl e
              | Inr hollow \<Rightarrow> Inr (LeaderboardRow rank nm sc (take 14 (filled @ hollow)))))"

fun leaderboard_rows :: "int \<Rightarrow> nat \<Rightarrow> MemberStats list \<Rightarrow> written list \<times> js_error option" where
  "leaderboard_rows n i [] = ([], None)"
| "leaderboard_rows n i (m # ms) =
     (case leaderboard_row n i m of
        Inl e \<Rightarrow> ([], Some e)
      | Inr row \<Rightarrow>
          (case leaderboard_rows n (Suc i) ms of (out, err) \<Rightarrow> (row # out, err)))"

subsection \<open>The tables of the days\<close>

record Completion =
  name_c :: string
  p1 :: int
  p2 :: "int option"

text \<open>
  The filter on a present part-1 offset and the map that reads this offset (the two
  \<^verbatim>\<open>!\<close> of the script are safe after the filter) are one pass here.
\<close>

definition completion_of :: "int \<Rightarrow> MemberStats \<Rightarrow> Completion option" where
  "completion_of day m =
     (case get_part1 m day of
        None \<Rightarrow> None
      | Some v \<Rightarrow> Some \<lparr>name_c = name_s m, p1 = v, p2 = get_part2 m day\<rparr>)"

definition dayCompletions :: "MemberStats list \<Rightarrow> int \<Rightarrow> Completion list" where
  "dayCompletions stats day =
     js_sort (\<lambda>a b. p1 a - p1 b) (List.map_filter (completion_of day) stats)"

definition duration_cell :: "int option \<Rightarrow> string" where
  "duration_cell d =
     (case d of Some v \<Rightarrow> padStart 11 (formatDuration v) | None \<Rightarrow> padStart 11 ''-'')"

definition day_row :: "nat \<Rightarrow> Completion \<Rightarrow> written" where
  "day_row i c =
     DayRow (padStart 4 (toString (int i + 1))) (padEnd 24 (slice0 24 (name_c c)))
       (padStart 11 (formatDuration (p1 c))) (duration_cell (p2 c))"

definition day_rows :: "Completion list \<Rightarrow> written list" where
  "day_rows cs = map (\<lambda>(i, c). day_row i c) (enumerate 0 cs)"

text \<open>
  One round of the loop over the days. \<^verbatim>\<open>dayAverages.get(day)!\<close> is read before the rows
  are written and used after them; were the entry missing, the use would throw.
\<close>

definition day_table ::
  "MemberStats list \<Rightarrow> (int \<rightharpoonup> DayAverage) \<Rightarrow> int \<Rightarrow> written list \<times> js_error option" where
  "day_table stats avgs day =
     (let completions = dayCompletions stats day in
      if length completions = 0 then ([], None)
      else
        (case avgs day of
           None \<Rightarrow> (DayHeader day # day_rows completions, Some TypeError)
         | Some avg \<Rightarrow>
             (DayHeader day # day_rows completions @
                [DayAverageRow (duration_cell (avgP1 avg)) (duration_cell (avgP2 avg))],
              None)))"

fun dailyBreakdown ::
  "MemberStats list \<Rightarrow> (int \<rightharpoonup> DayAverage) \<Rightarrow> int list \<Rightarrow> written list \<times> js_error option" where
  "dailyBreakdown stats avgs [] = ([], None)"
| "dailyBreakdown stats avgs (day # days) =
     (case day_table stats avgs day of
        (out, Some e) \<Rightarrow> (out, Some e)
      | (out, None) \<Rightarrow>
          (case dailyBreakdown stats avgs days of (out', err) \<Rightarrow> (out @ out', err)))"

section \<open>The run\<close>

text \<open>
  The response of the one request: the fields the script reads, and the outcome of
  \<^verbatim>\<open>await response.json()\<close>, which rejects when the body is not JSON.
\<close>

record Response =
  ok :: bool
  status :: int
  statusText :: string
  json :: "js_error + LeaderboardData"

datatype outcome = Returned | Thrown js_error | Exited int

text \<open>Everything in \<^verbatim>\<open>main\<close> after the body is parsed.\<close>

definition render :: "LeaderboardData \<Rightarrow> written list \<times> js_error option" where
  "render data =
     (case members data of
        None \<Rightarrow> ([], Some TypeError)
      | Some ps \<Rightarrow>
          (let ms = sorted_members ps;
               summary = Summary (event data) (length ms) (num_days data);
               memberStats = build_memberStats ms (num_days data);
               avgs = dayAverages memberStats (num_days data)
           in case leaderboard_rows (num_days data) 0 memberStats of
                (rows, Some e) \<Rightarrow> (summary # LeaderboardHeader # rows, Some e)
              | (rows, None) \<Rightarrow>
                  (case dailyBreakdown memberStats avgs [1..num_days data] of
                     (tables, err) \<Rightarrow>
                       (summary # LeaderboardHeader # rows @ LeaderboardFooter # tables, err))))"

definition leaderboard_url :: "string \<Rightarrow> string \<Rightarrow> string" where
  "leaderboard_url LEADERBOARD_ID VIEW_KEY =
     ''https://adventofcode.com/2025/leaderboard/private/view/'' @ LEADERBOARD_ID @
     ''.json?view_key='' @ VIEW_KEY"

definition fetch_failed :: "Response \<Rightarrow> string" where
  "fetch_failed response =
     ''Failed to fetch: '' @ toString (status response) @ '' '' @ statusText response"

text \<open>
  \<^verbatim>\<open>main\<close>, given the two values that \<^verbatim>\<open>parseArgs\<close> resolved and what \<^verbatim>\<open>fetch\<close> settles
  with (a rejection, or a response). \<^verbatim>\<open>process.exit(1)\<close> ends the run at once.
\<close>

definition main :: "string \<Rightarrow> string \<Rightarrow> js_error + Response \<Rightarrow> written list \<times> outcome" where
  "main LEADERBOARD_ID VIEW_KEY fetched =
     (let start = [Log (''Fetching Advent of Code 2025 leaderboard...'' @ [CHR 0x0A]),
                   Fetch (leaderboard_url LEADERBOARD_ID VIEW_KEY)]
      in case fetched of
           Inl e \<Rightarrow> (start, Thrown e)
         | Inr response \<Rightarrow>
             if \<not> ok response then (start @ [ConsoleError (fetch_failed response)], Exited 1)
             else
               (case json response of
                  Inl e \<Rightarrow> (start, Thrown e)
                | Inr data \<Rightarrow>
                    (case render data of
                       (out, None) \<Rightarrow> (start @ out, Returned)
                     | (out, Some e) \<Rightarrow> (start @ out, Thrown e))))"

text \<open>
  The last line of the script, \<^verbatim>\<open>main().catch(console.error)\<close>: a rejection is printed
  and the process then ends as after a normal return, with exit code 0.
\<close>

definition run :: "string \<Rightarrow> string \<Rightarrow> js_error + Response \<Rightarrow> written list \<times> int" where
  "run LEADERBOARD_ID VIEW_KEY fetched =
     (case main LEADERBOARD_ID VIEW_KEY fetched of
        (out, Returned) \<Rightarrow> (out, 0)
      | (out, Thrown e) \<Rightarrow> (out @ [ConsoleErrorValue e], 0)
      | (out, Exited code) \<Rightarrow> (out, code))"

text \<open>The output that belongs to a table.\<close>

fun is_table_output :: "written \<Rightarrow> bool" where
  "is_table_output (Log s) = False"
| "is_table_output (ConsoleError s) = False"
| "is_table_output (ConsoleErrorValue e) = False"
| "is_table_output (Fetch u) = False"
| "is_table_output (Summary e n d) = False"
| "is_table_output x = True"

fun is_fetch :: "written \<Rightarrow> bool" where
  "is_fetch (Fetch u) = True"
| "is_fetch x = False"

section \<open>Notions of the specification\<close>

text \<open>
  The part-1 and part-2 offsets that are present on a day, one for each participant
  that has one, in the order of the participants; and the arithmetic mean of a
  list of offsets.
\<close>

definition part1_offsets :: "MemberStats list \<Rightarrow> int \<Rightarrow> int list" where
  "part1_offsets stats day = List.map_filter (\<lambda>m. get_part1 m day) stats"

definition part2_offsets :: "MemberStats list \<Rightarrow> int \<Rightarrow> int list" where
  "part2_offsets stats day = List.map_filter (\<lambda>m. get_part2 m day) stats"

definition mean :: "int list \<Rightarrow> rat" where
  "mean xs = of_int (sum_list xs) / of_int (int (length xs))"

text \<open>
  The order of the overall table in the words of the specification: a participant
  ranks before another on a higher score, on equal scores on more stars, and on
  equal scores and stars on an earlier last star. Two participants are tied when
  they are equal on all three keys.
\<close>

definition spec_before :: "Member \<Rightarrow> Member \<Rightarrow> bool" where
  "spec_before a b \<longleftrightarrow>
     local_score a > local_score b \<or>
     (local_score a = local_score b \<and>
        (stars a > stars b \<or> (stars a = stars b \<and> last_star_ts a < last_star_ts b)))"

definition tied :: "Member \<Rightarrow> Member \<Rightarrow> bool" where
  "tied a b \<longleftrightarrow>
     local_score a = local_score b \<and> stars a = stars b \<and> last_star_ts a = last_star_ts b"

text \<open>
  The row of the overall table for the participant at position \<open>i\<close> (counted from
  0): the rank \<open>i + 1\<close>, the name cut to 24 characters and padded, the score, and
  as many filled stars as the participant has, followed by hollow ones up to
  \<open>2 * num_days\<close>, cut to 14 glyphs. The star counts make sense when the stars lie
  between 0 and \<open>2 * num_days\<close>.
\<close>

definition stars_ok :: "int \<Rightarrow> MemberStats \<Rightarrow> bool" where
  "stars_ok n m \<longleftrightarrow> 0 \<le> stars_s m \<and> stars_s m \<le> n * 2"

definition table_row :: "int \<Rightarrow> nat \<Rightarrow> MemberStats \<Rightarrow> written" where
  "table_row n i m =
     LeaderboardRow (padStart 4 (toString (int i + 1))) (padEnd 24 (slice0 24 (name_s m)))
       (padStart 7 (toString (score m)))
       (take 14 (replicate (nat (stars_s m)) FilledStar @
                 replicate (nat (n * 2 - stars_s m)) HollowStar))"

fun is_leaderboard_row :: "written \<Rightarrow> bool" where
  "is_leaderboard_row (LeaderboardRow r n s g) = True"
| "is_leaderboard_row x = False"


section \<open>Sample data\<close>

text \<open>A member whose part-1 timestamp of day 1 is \<open>0\<close>.\<close>

definition member_ts0 :: Member where
  "member_ts0 =
     \<lparr>id_m = 7, name = Some ''zero'', stars = 2, local_score = 2, last_star_ts = 1764565300,
      completion_day_level = [1 \<mapsto> \<lparr>star1 = Some 0, star2 = Some 1764565300\<rparr>]\<rparr>"

text \<open>The snapshot of one day whose only member is this one.\<close>

definition snapshot_ts0 :: LeaderboardData where
  "snapshot_ts0 =
     \<lparr>event = ''2025'', owner_id = 7, members = Some [(Index 7, member_ts0)], num_days = 1,
      day1_ts = 1764565200\<rparr>"

text \<open>
  Two members who got their first star of day 1 one and two seconds before the
  unlock instant, and statistics with given offsets on day 1.
\<close>

definition early_a :: Member where
  "early_a =
     \<lparr>id_m = 1, name = Some ''a'', stars = 1, local_score = 2, last_star_ts = 1764565199,
      completion_day_level = [1 \<mapsto> \<lparr>star1 = Some 1764565199, star2 = None\<rparr>]\<rparr>"

definition early_b :: Member where
  "early_b =
     \<lparr>id_m = 2, name = Some ''b'', stars = 1, local_score = 1, last_star_ts = 1764565198,
      completion_day_level = [1 \<mapsto> \<lparr>star1 = Some 1764565198, star2 = None\<rparr>]\<rparr>"

definition stats_of_offsets :: "(int \<times> int option) list \<Rightarrow> MemberStats list" where
  "stats_of_offsets ps =
     map (\<lambda>(a, b). \<lparr>name_s = ''m'', score = 0, stars_s = 0,
                      times_s = [1 \<mapsto> \<lparr>part1 = Some a, part2 = b\<rparr>]\<rparr>) ps"

text \<open>
  Two members that are equal on all three keys of the overall table; and the
  scenario of the specification: \<open>A\<close> solves
  part 1 of day 1 after 65 seconds and part 2 after 130 seconds, the anonymous \<open>B\<close>
  solves part 1 alone after 10 seconds, and nobody has solved day 2.
\<close>

definition tie_x :: Member where
  "tie_x = \<lparr>id_m = 1, name = Some ''x'', stars = 2, local_score = 10, last_star_ts = 1764565300,
            completion_day_level = Map.empty\<rparr>"


definition solver_A :: Member where
  "solver_A =
     \<lparr>id_m = 101, name = Some ''A'', stars = 2, local_score = 3, last_star_ts = 1764565330,
      completion_day_level = [1 \<mapsto> \<lparr>star1 = Some 1764565265, star2 = Some 1764565330\<rparr>]\<rparr>"

definition solver_B :: Member where
  "solver_B =
     \<lparr>id_m = 102, name = None, stars = 1, local_score = 2, last_star_ts = 1764565210,
      completion_day_level = [1 \<mapsto> \<lparr>star1 = Some 1764565210, star2 = None\<rparr>]\<rparr>"

definition scenario :: LeaderboardData where
  "scenario =
     \<lparr>event = ''2025'', owner_id = 101,
      members = Some [(Index 102, solver_B), (Index 101, solver_A)], num_days = 2,
      day1_ts = 1764565200\<rparr>"

definition scenario_stats :: "MemberStats list" where
  "scenario_stats =
     build_memberStats (sorted_members [(Index 102, solver_B), (Index 101, solver_A)]) 2"

section \<open>Durations and unlock instants: properties\<close>

lemma floor_div_eq_div: "floor_div a b = a div b"
  unfolding floor_div_def by (rule floor_divide_of_int_eq)

lemma js_rem_nonneg: "0 \<le> a \<Longrightarrow> 0 < b \<Longrightarrow> js_rem a b = a mod b"
  unfolding js_rem_def by (cases "a = 0") auto

lemma spec_hours_eq: "spec_hours s = (s mod 86400) div 3600"
  unfolding spec_hours_def spec_days_def by (simp add: minus_mult_div_eq_mod)

lemma spec_mins_eq: "spec_mins s = (s mod 3600) div 60"
proof -
  have "s - 86400 * (s div 86400) - 3600 * ((s mod 86400) div 3600) = (s mod 86400) mod 3600"
    by (simp add: minus_mult_div_eq_mod)
  also have "\<dots> = s mod 3600"
    by (rule mod_mod_cancel) simp
  finally show ?thesis
    unfolding spec_mins_def spec_hours_eq spec_days_def by simp
qed

lemma spec_secs_eq: "spec_secs s = s mod 60"
proof -
  have "s - 86400 * (s div 86400) - 3600 * ((s mod 86400) div 3600) = (s mod 86400) mod 3600"
    by (simp add: minus_mult_div_eq_mod)
  also have "\<dots> = s mod 3600"
    by (rule mod_mod_cancel) simp
  finally have "spec_secs s = (s mod 3600) mod 60"
    unfolding spec_secs_def spec_mins_eq spec_hours_eq spec_days_def
    by (simp add: minus_mult_div_eq_mod)
  also have "\<dots> = s mod 60"
    by (rule mod_mod_cancel) simp
  finally show ?thesis .
qed

lemma formatDuration_refines: "formatDuration s = spec_formatDuration s"
proof (cases "s < 0")
  case True
  then show ?thesis by (simp add: formatDuration_def spec_formatDuration_def)
next
  case False
  then have s: "0 \<le> s" by simp
  have d: "0 \<le> s div 86400" using s by (simp add: pos_imp_zdiv_nonneg_iff)
  have h: "0 \<le> (s mod 86400) div 3600" by (simp add: pos_imp_zdiv_nonneg_iff)
  have m: "0 \<le> (s mod 3600) div 60" by (simp add: pos_imp_zdiv_nonneg_iff)
  from s d h m show ?thesis
    unfolding formatDuration_def spec_formatDuration_def Let_def
    by (simp add: floor_div_eq_div js_rem_nonneg spec_hours_eq spec_mins_eq spec_secs_eq
        spec_days_def order_less_le)
qed

lemma spec_units_sum:
  "s = spec_days s * 86400 + spec_hours s * 3600 + spec_mins s * 60 + spec_secs s"
  by (simp add: spec_secs_def)

lemma spec_units_range:
  "0 \<le> spec_hours s \<and> spec_hours s < 24 \<and> 0 \<le> spec_mins s \<and> spec_mins s < 60 \<and>
   0 \<le> spec_secs s \<and> spec_secs s < 60"
  unfolding spec_hours_eq spec_mins_eq spec_secs_eq
  by (intro conjI) (simp_all add: pos_imp_zdiv_nonneg_iff)

lemma spec_days_nonneg: "0 \<le> s \<Longrightarrow> 0 \<le> spec_days s"
  by (simp add: spec_days_def pos_imp_zdiv_nonneg_iff)

lemma formatDuration_examples:
  "formatDuration (- 1) = ''N/A''" "formatDuration 0 = ''0s''"
  "formatDuration 65 = ''1m 5s''" "formatDuration 3661 = ''1h 1m 1s''"
  "formatDuration 90000 = ''1d 1h 0m''"
  by code_simp+

text \<open>
  Claim C6. \<open>formatDuration\<close> is a function of the signed integer seconds alone. Every
  negative input renders as \<open>N/A\<close>. A non-negative input is split into whole days,
  hours (below 24), minutes (below 60) and seconds (below 60) that add up to the
  input, and the text is the coarsest non-zero unit with the next two smaller ones,
  without the seconds when there are days, down to the seconds alone: this is
  \<open>spec_formatDuration\<close>, written from the specification, and the function of the
  script equals it. In particular \<open>-1\<close> gives \<open>N/A\<close>, \<open>0\<close> gives \<open>0s\<close>, \<open>65\<close> gives
  \<open>1m 5s\<close>, \<open>3661\<close> gives \<open>1h 1m 1s\<close> and \<open>90000\<close> gives \<open>1d 1h 0m\<close>.
\<close>

theorem formatDuration_rendering:
  "(s < 0 \<longrightarrow> formatDuration s = ''N/A'') \<and>
   formatDuration s = spec_formatDuration s \<and>
   (0 \<le> s \<longrightarrow>
      s = spec_days s * 86400 + spec_hours s * 3600 + spec_mins s * 60 + spec_secs s \<and>
      0 \<le> spec_days s \<and> 0 \<le> spec_hours s \<and> spec_hours s < 24 \<and>
      0 \<le> spec_mins s \<and> spec_mins s < 60 \<and> 0 \<le> spec_secs s \<and> spec_secs s < 60) \<and>
   formatDuration (- 1) = ''N/A'' \<and> formatDuration 0 = ''0s'' \<and>
   formatDuration 65 = ''1m 5s'' \<and> formatDuration 3661 = ''1h 1m 1s'' \<and>
   formatDuration 90000 = ''1d 1h 0m''"
proof -
  have neg: "s < 0 \<longrightarrow> formatDuration s = ''N/A''"
    by (simp add: formatDuration_def)
  have units: "0 \<le> s \<longrightarrow>
      s = spec_days s * 86400 + spec_hours s * 3600 + spec_mins s * 60 + spec_secs s \<and>
      0 \<le> spec_days s \<and> 0 \<le> spec_hours s \<and> spec_hours s < 24 \<and>
      0 \<le> spec_mins s \<and> spec_mins s < 60 \<and> 0 \<le> spec_secs s \<and> spec_secs s < 60"
    using spec_units_sum [of s] spec_units_range [of s] spec_days_nonneg [of s] by blast
  from neg units formatDuration_refines [of s] formatDuration_examples
  show ?thesis by blast
qed

theorem formatDuration_rendering_witness:
  "(- 5 :: int) < 0 \<and> formatDuration (- 5) = ''N/A'' \<and>
   (0 :: int) \<le> 93784 \<and> formatDuration 93784 = spec_formatDuration 93784 \<and>
   (93784 :: int) =
     spec_days 93784 * 86400 + spec_hours 93784 * 3600 + spec_mins 93784 * 60 +
     spec_secs 93784 \<and>
   spec_hours 93784 < 24 \<and> spec_mins 93784 < 60 \<and> spec_secs 93784 < 60"
  using formatDuration_rendering [of "- 5"] formatDuration_rendering [of 93784]
  by simp

text \<open>
  Claim C7. For every day number \<open>d\<close> the unlock instant is
  \<open>unlock(d) = unlock(1) + (d - 1) * 86400\<close> with \<open>unlock(1)\<close> the fixed constant
  1764565200, consecutive unlock instants differ by exactly 86400 seconds, and so
  the unlock instants are strictly increasing.
\<close>

theorem getPuzzleUnlock_step:
  "getPuzzleUnlock d = getPuzzleUnlock 1 + (d - 1) * 86400 \<and>
   getPuzzleUnlock 1 = 1764565200 \<and>
   getPuzzleUnlock (d + 1) - getPuzzleUnlock d = 86400 \<and>
   getPuzzleUnlock d < getPuzzleUnlock (d + 1) \<and>
   (d < e \<longrightarrow> getPuzzleUnlock d < getPuzzleUnlock e)"
  by (simp add: getPuzzleUnlock_def DAY_1_UNLOCK_def SECONDS_PER_DAY_def algebra_simps)

theorem getPuzzleUnlock_step_witness:
  "(3 :: int) < 25 \<and> getPuzzleUnlock 3 < getPuzzleUnlock 25 \<and>
   getPuzzleUnlock 3 = getPuzzleUnlock 1 + (3 - 1) * 86400 \<and>
   getPuzzleUnlock (3 + 1) - getPuzzleUnlock 3 = 86400"
  using getPuzzleUnlock_step [of 3 25] by simp

section \<open>Offsets and averages: properties\<close>

lemma offset_eq_Some:
  "offset partTs unlock = Some d \<longleftrightarrow> (\<exists>ts. partTs = Some ts \<and> ts \<noteq> 0 \<and> d = ts - unlock)"
  by (auto simp: offset_def split: option.splits)

lemma offset_zero_distinct: "offset (Some unlock) unlock = (if unlock = 0 then None else Some 0)"
  by (simp add: offset_def)

lemma fold_set_times:
  "fold (set_times m) ds tm d =
     (if d \<in> set ds then
        (case completion_day_level m d of
           None \<Rightarrow> tm d
         | Some dd \<Rightarrow> Some \<lparr>part1 = offset (star1 dd) (getPuzzleUnlock d),
                            part2 = offset (star2 dd) (getPuzzleUnlock d)\<rparr>)
      else tm d)"
proof (induction ds arbitrary: tm)
  case Nil
  then show ?case by simp
next
  case (Cons a ds)
  show ?case
    by (simp add: Cons.IH) (auto simp: set_times_def Let_def split: option.splits)
qed

lemma member_times_apply:
  "member_times m n d =
     (if 1 \<le> d \<and> d \<le> n then
        (case completion_day_level m d of
           None \<Rightarrow> None
         | Some dd \<Rightarrow> Some \<lparr>part1 = offset (star1 dd) (getPuzzleUnlock d),
                            part2 = offset (star2 dd) (getPuzzleUnlock d)\<rparr>)
      else None)"
  unfolding member_times_def fold_set_times by (auto split: option.splits)

lemma get_part1_member_stats:
  "1 \<le> day \<and> day \<le> n \<Longrightarrow>
   get_part1 (member_stats n m) day =
     (case completion_day_level m day of
        None \<Rightarrow> None
      | Some dayData \<Rightarrow> offset (star1 dayData) (getPuzzleUnlock day))"
  by (simp add: get_part1_def member_stats_def member_times_apply split: option.splits)

lemma get_part2_member_stats:
  "1 \<le> day \<and> day \<le> n \<Longrightarrow>
   get_part2 (member_stats n m) day =
     (case completion_day_level m day of
        None \<Rightarrow> None
      | Some dayData \<Rightarrow> offset (star2 dayData) (getPuzzleUnlock day))"
  by (simp add: get_part2_def member_stats_def member_times_apply split: option.splits)

lemma fold_day_average:
  "fold (\<lambda>day avgs. avgs(day \<mapsto> f day)) ds avgs d =
     (if d \<in> set ds then Some (f d) else avgs d)"
  by (induction ds arbitrary: avgs) auto

lemma dayAverages_apply:
  "dayAverages stats n d = (if 1 \<le> d \<and> d \<le> n then Some (day_average stats d) else None)"
  unfolding dayAverages_def fold_day_average by auto

lemma fold_day_totals:
  "fold (\<lambda>m (p1, p2). (add_sample (get_part1 m day) p1, add_sample (get_part2 m day) p2))
     stats ((a, b), (c, d)) =
   ((a + sum_list (part1_offsets stats day), b + int (length (part1_offsets stats day))),
    (c + sum_list (part2_offsets stats day), d + int (length (part2_offsets stats day))))"
proof (induction stats arbitrary: a b c d)
  case Nil
  then show ?case by (simp add: part1_offsets_def part2_offsets_def)
next
  case (Cons m stats)
  show ?case
    by (cases "get_part1 m day"; cases "get_part2 m day")
      (simp_all add: Cons.IH part1_offsets_def part2_offsets_def)
qed

lemma day_totals_eq:
  "day_totals stats day =
   ((sum_list (part1_offsets stats day), int (length (part1_offsets stats day))),
    (sum_list (part2_offsets stats day), int (length (part2_offsets stats day))))"
  unfolding day_totals_def fold_day_totals by simp

lemma average_offsets:
  "average (sum_list xs, int (length xs)) = (if xs = [] then None else Some (Math_round (mean xs)))"
  by (simp add: mean_def)

lemma day_average_eq:
  "day_average stats day =
     \<lparr>avgP1 = (if part1_offsets stats day = [] then None
               else Some (Math_round (mean (part1_offsets stats day)))),
      avgP2 = (if part2_offsets stats day = [] then None
               else Some (Math_round (mean (part2_offsets stats day))))\<rparr>"
  unfolding day_average_def day_totals_eq by (simp add: average_offsets del: average.simps)


lemma Math_round_bounds: "of_int (Math_round x) \<le> x + 1 / 2 \<and> x + 1 / 2 < of_int (Math_round x) + 1"
  unfolding Math_round_def by linarith

lemma Math_round_quotient:
  "0 < c \<Longrightarrow> Math_round (of_int t / of_int c) = (2 * t + c) div (2 * c)"
proof -
  assume c: "0 < c"
  have "(of_int t :: rat) / of_int c + 1 / 2 = of_int (2 * t + c) / of_int (2 * c)"
    using c by (simp add: field_simps)
  then show ?thesis
    unfolding Math_round_def by (simp only: floor_divide_of_int_eq)
qed

lemma Math_round_mean:
  "xs \<noteq> [] \<Longrightarrow>
   Math_round (mean xs) = (2 * sum_list xs + int (length xs)) div (2 * int (length xs))"
  unfolding mean_def by (rule Math_round_quotient) simp

lemma Math_round_tie: "x - of_int \<lfloor>x\<rfloor> = 1 / 2 \<Longrightarrow> Math_round x = \<lfloor>x\<rfloor> + 1"
  unfolding Math_round_def by linarith

lemma Math_round_away: "0 \<le> x \<Longrightarrow> Math_round x = round_half_away_from_zero x"
  by (simp add: Math_round_def round_half_away_from_zero_def)

lemma Math_round_no_tie_away:
  "x - of_int \<lfloor>x\<rfloor> \<noteq> 1 / 2 \<Longrightarrow> Math_round x = round_half_away_from_zero x"
proof (cases "0 \<le> x")
  case True
  then show ?thesis by (simp add: Math_round_def round_half_away_from_zero_def)
next
  case False
  assume no_tie: "x - of_int \<lfloor>x\<rfloor> \<noteq> 1 / 2"
  have shift: "\<lfloor>x + 1 / 2\<rfloor> = \<lfloor>x - 1 / 2\<rfloor> + 1"
  proof -
    have "x + 1 / 2 = (x - 1 / 2) + of_int 1" by simp
    then have "\<lfloor>x + 1 / 2\<rfloor> = \<lfloor>(x - 1 / 2) + of_int 1\<rfloor>" by (rule arg_cong)
    then show ?thesis by (simp only: floor_add_int)
  qed
  have "x - 1 / 2 \<noteq> of_int \<lfloor>x - 1 / 2\<rfloor>"
  proof
    assume eq: "x - 1 / 2 = of_int \<lfloor>x - 1 / 2\<rfloor>"
    then have "\<lfloor>x\<rfloor> = \<lfloor>x - 1 / 2\<rfloor>" by linarith
    with eq no_tie show False by simp
  qed
  then have "\<lceil>x - 1 / 2\<rceil> = \<lfloor>x - 1 / 2\<rfloor> + 1"
    by (simp add: ceiling_altdef)
  with shift False show ?thesis
    by (simp add: Math_round_def round_half_away_from_zero_def)
qed

lemma Math_round_no_tie_even:
  "x - of_int \<lfloor>x\<rfloor> \<noteq> 1 / 2 \<Longrightarrow> Math_round x = round_half_to_even x"
  unfolding Math_round_def round_half_to_even_def
  by auto linarith+

text \<open>
  Claim C3. The claim is that the offset of a part is present if and only if the
  completion timestamp of the part is present in the snapshot, and is then the
  timestamp minus the unlock instant. The script tests the timestamp for
  truthiness, so a timestamp that is present and equal to \<open>0\<close> gives an absent offset:
  the member below has the part-1 timestamp \<open>0\<close> on day 1 and gets no part-1 offset,
  so that the day has no part-1 offset at all, while the part-2 offset is the
  timestamp minus the unlock instant, 100 seconds.
\<close>

theorem offset_absent_at_timestamp_zero:
  "completion_day_level member_ts0 1 = Some \<lparr>star1 = Some 0, star2 = Some 1764565300\<rparr> \<and>
   member_times member_ts0 1 1 = Some \<lparr>part1 = None, part2 = Some 100\<rparr> \<and>
   part1_offsets (build_memberStats [member_ts0] 1) 1 = [] \<and>
   part2_offsets (build_memberStats [member_ts0] 1) 1 = [100]"
  by (simp add: member_times_apply member_ts0_def offset_def getPuzzleUnlock_def
      DAY_1_UNLOCK_def SECONDS_PER_DAY_def part1_offsets_def part2_offsets_def
      build_memberStats_def member_stats_def get_part1_def get_part2_def)



text \<open>
  Claim C5, as stated, fails. Two members solved part 1 of day 1 one and two seconds
  before the unlock instant, so their offsets are \<open>-1\<close> and \<open>-2\<close> and the mean is
  \<open>-3/2\<close>. The script's average is \<open>-1\<close>, whereas round-half-away-from-zero and
  round-half-to-even both give \<open>-2\<close>.
\<close>

theorem rounding_rule_counterexample:
  "part1_offsets (build_memberStats [early_a, early_b] 1) 1 = [- 1, - 2] \<and>
   mean [- 1, - 2] = - 3 / 2 \<and>
   avgP1 (day_average (build_memberStats [early_a, early_b] 1) 1) = Some (- 1) \<and>
   round_half_away_from_zero (- 3 / 2) = - 2 \<and>
   round_half_to_even (- 3 / 2) = - 2"
proof -
  have p1: "part1_offsets (build_memberStats [early_a, early_b] 1) 1 = [- 1, - 2]"
    by (simp add: build_memberStats_def member_stats_def part1_offsets_def get_part1_def
        member_times_apply early_a_def early_b_def offset_def getPuzzleUnlock_def
        DAY_1_UNLOCK_def SECONDS_PER_DAY_def)
  have m: "mean [- 1, - 2] = - 3 / 2"
    by (simp add: mean_def)
  have r: "Math_round (- 3 / 2) = - 1"
    by code_simp
  have a: "round_half_away_from_zero (- 3 / 2) = - 2"
    by code_simp
  have e: "round_half_to_even (- 3 / 2) = - 2"
    by code_simp
  from p1 m r a e show ?thesis
    by (simp add: day_average_eq)
qed

text \<open>
  Claim C5, amended. The rounding applied to every day-average mean \<open>x\<close> follows one
  fixed rule, that of \<^verbatim>\<open>Math.round\<close>: the result \<open>r\<close> is the integer with
  \<open>r \<le> x + 1/2 < r + 1\<close>, so every exact \<open>.5\<close> boundary goes to the larger
  neighbour, for negative means too. The result is the one of
  round-half-away-from-zero for every non-negative mean and for every mean that is
  not at a \<open>.5\<close> boundary.
\<close>

theorem day_average_rounds_half_up:
  "(avgP1 (day_average stats day) = Some r \<and> x = mean (part1_offsets stats day)) \<or>
   (avgP2 (day_average stats day) = Some r \<and> x = mean (part2_offsets stats day)) \<longrightarrow>
     r = Math_round x \<and>
     of_int r \<le> x + 1 / 2 \<and> x + 1 / 2 < of_int r + 1 \<and>
     (x - of_int \<lfloor>x\<rfloor> = 1 / 2 \<longrightarrow> r = \<lfloor>x\<rfloor> + 1) \<and>
     (0 \<le> x \<or> x - of_int \<lfloor>x\<rfloor> \<noteq> 1 / 2 \<longrightarrow> r = round_half_away_from_zero x)"
proof
  assume "(avgP1 (day_average stats day) = Some r \<and> x = mean (part1_offsets stats day)) \<or>
   (avgP2 (day_average stats day) = Some r \<and> x = mean (part2_offsets stats day))"
  then have r: "r = Math_round x"
    by (auto simp: day_average_eq split: if_splits)
  show "r = Math_round x \<and>
     of_int r \<le> x + 1 / 2 \<and> x + 1 / 2 < of_int r + 1 \<and>
     (x - of_int \<lfloor>x\<rfloor> = 1 / 2 \<longrightarrow> r = \<lfloor>x\<rfloor> + 1) \<and>
     (0 \<le> x \<or> x - of_int \<lfloor>x\<rfloor> \<noteq> 1 / 2 \<longrightarrow> r = round_half_away_from_zero x)"
    unfolding r
    using Math_round_bounds [of x] Math_round_tie [of x] Math_round_away [of x]
      Math_round_no_tie_away [of x]
    by blast
qed

theorem day_average_rounds_half_up_witness:
  "avgP1 (day_average (stats_of_offsets [(1, None), (2, None)]) 1) = Some 2 \<and>
   mean (part1_offsets (stats_of_offsets [(1, None), (2, None)]) 1) = 3 / 2 \<and>
   (3 / 2 :: rat) - of_int \<lfloor>3 / 2 :: rat\<rfloor> = 1 / 2 \<and>
   (0 :: rat) \<le> 3 / 2 \<and>
   (2 :: int) = Math_round (3 / 2) \<and> 2 = \<lfloor>3 / 2 :: rat\<rfloor> + 1 \<and>
   2 = round_half_away_from_zero (3 / 2)"
proof -
  let ?stats = "stats_of_offsets [(1, None), (2, None)]"
  have p1: "part1_offsets ?stats 1 = [1, 2]"
    by (simp add: stats_of_offsets_def part1_offsets_def get_part1_def)
  have m: "mean (part1_offsets ?stats 1) = 3 / 2"
    unfolding p1 by (simp add: mean_def)
  have a: "avgP1 (day_average ?stats 1) = Some 2"
    by (simp add: day_average_eq p1 Math_round_mean)
  have f: "\<lfloor>3 / 2 :: rat\<rfloor> = 1"
    by code_simp
  have tie: "(3 / 2 :: rat) - of_int \<lfloor>3 / 2 :: rat\<rfloor> = 1 / 2"
    unfolding f by simp
  have pos: "(0 :: rat) \<le> 3 / 2"
    by simp
  from a m have "(avgP1 (day_average ?stats 1) = Some 2 \<and> 3 / 2 = mean (part1_offsets ?stats 1)) \<or>
   (avgP2 (day_average ?stats 1) = Some 2 \<and> 3 / 2 = mean (part2_offsets ?stats 1))"
    by simp
  with day_average_rounds_half_up [of ?stats 1 2 "3 / 2"] tie pos
  have "(2 :: int) = Math_round (3 / 2) \<and> 2 = \<lfloor>3 / 2 :: rat\<rfloor> + 1 \<and>
     2 = round_half_away_from_zero (3 / 2)"
    by blast
  with a m tie pos show ?thesis
    by blast
qed

section \<open>Sorting: properties\<close>

lemma mset_insert_by: "mset (insert_by cmp x xs) = add_mset x (mset xs)"
  by (induction xs) auto

lemma mset_js_sort: "mset (js_sort cmp xs) = mset xs"
  unfolding js_sort_def by (induction xs) (auto simp: mset_insert_by)

lemma set_insert_by: "set (insert_by cmp x xs) = insert x (set xs)"
  by (induction xs) auto

lemma set_js_sort: "set (js_sort cmp xs) = set xs"
  using mset_js_sort [of cmp xs] by (metis set_mset_mset)

lemma sorted_insert_by:
  assumes trans: "\<And>a b c. cmp a b \<le> 0 \<Longrightarrow> cmp b c \<le> 0 \<Longrightarrow> cmp a c \<le> 0"
    and total: "\<And>a b. cmp a b \<le> 0 \<or> cmp b a \<le> 0"
  shows "sorted_wrt (\<lambda>a b. cmp a b \<le> 0) xs \<Longrightarrow>
    sorted_wrt (\<lambda>a b. cmp a b \<le> 0) (insert_by cmp x xs)"
proof (induction xs)
  case Nil
  then show ?case by simp
next
  case (Cons y ys)
  show ?case
  proof (cases "cmp x y \<le> 0")
    case True
    with Cons.prems trans show ?thesis by auto
  next
    case False
    with total [of x y] have "cmp y x \<le> 0" by simp
    with False Cons show ?thesis by (auto simp: set_insert_by)
  qed
qed

lemma sorted_js_sort:
  assumes trans: "\<And>a b c. cmp a b \<le> 0 \<Longrightarrow> cmp b c \<le> 0 \<Longrightarrow> cmp a c \<le> 0"
    and total: "\<And>a b. cmp a b \<le> 0 \<or> cmp b a \<le> 0"
  shows "sorted_wrt (\<lambda>a b. cmp a b \<le> 0) (js_sort cmp xs)"
  unfolding js_sort_def
  by (induction xs) (auto intro: sorted_insert_by [OF trans total])



lemma sorted_wrt_unique:
  assumes "sorted_wrt le xs" "sorted_wrt le ys" "mset xs = mset ys"
    and "\<And>a b. a \<in> set xs \<Longrightarrow> b \<in> set xs \<Longrightarrow> le a b \<Longrightarrow> le b a \<Longrightarrow> a = b"
  shows "xs = ys"
  using assms
proof (induction xs arbitrary: ys)
  case Nil
  then show ?case by simp
next
  case (Cons x xs)
  from Cons.prems(3) obtain y ys' where ys: "ys = y # ys'"
    by (cases ys) auto
  have sets: "set (x # xs) = set (y # ys')"
    using Cons.prems(3) ys by (metis set_mset_mset)
  have "x = y"
  proof (rule ccontr)
    assume neq: "x \<noteq> y"
    with sets have "x \<in> set ys'" "y \<in> set xs" by auto
    with Cons.prems(1,2) ys have "le y x" "le x y" by auto
    with Cons.prems(4) [of x y] \<open>y \<in> set xs\<close> neq show False by auto
  qed
  moreover have "xs = ys'"
  proof (rule Cons.IH)
    show "sorted_wrt le xs" using Cons.prems(1) by simp
    show "sorted_wrt le ys'" using Cons.prems(2) ys by simp
    show "mset xs = mset ys'" using Cons.prems(3) ys \<open>x = y\<close> by simp
    show "\<And>a b. a \<in> set xs \<Longrightarrow> b \<in> set xs \<Longrightarrow> le a b \<Longrightarrow> le b a \<Longrightarrow> a = b"
      using Cons.prems(4) by simp
  qed
  ultimately show ?case using ys by simp
qed


lemma compare_members_sign:
  "(compare_members a b < 0 \<longleftrightarrow> spec_before a b) \<and>
   (compare_members a b = 0 \<longleftrightarrow> tied a b) \<and>
   (0 < compare_members a b \<longleftrightarrow> spec_before b a)"
  unfolding compare_members_def spec_before_def tied_def by auto

lemma compare_members_le: "compare_members a b \<le> 0 \<longleftrightarrow> \<not> spec_before b a"
  using compare_members_sign [of a b] by linarith

lemma compare_members_trans:
  "compare_members a b \<le> 0 \<Longrightarrow> compare_members b c \<le> 0 \<Longrightarrow> compare_members a c \<le> 0"
  unfolding compare_members_def by (auto split: if_splits)

lemma compare_members_total: "compare_members a b \<le> 0 \<or> compare_members b a \<le> 0"
  unfolding compare_members_def by (auto split: if_splits)

lemma mset_Object_values: "mset (Object_values ps) = mset (map snd ps)"
proof -
  have "mset (Object_values ps) =
      image_mset snd (filter_mset (\<lambda>p. is_index (fst p)) (mset ps)) +
      image_mset snd (filter_mset (\<lambda>p. \<not> is_index (fst p)) (mset ps))"
    unfolding Object_values_def by simp
  also have "\<dots> = image_mset snd (mset ps)"
    by (simp flip: image_mset_union)
  finally show ?thesis by simp
qed



lemma sorted_members_no_ties:
  assumes perm: "mset ps' = mset ps"
    and no_ties: "\<forall>a \<in> snd ` set ps. \<forall>b \<in> snd ` set ps. tied a b \<longrightarrow> a = b"
  shows "sorted_members ps' = sorted_members ps"
proof (rule sorted_wrt_unique [where le = "\<lambda>a b. compare_members a b \<le> 0"])
  show "sorted_wrt (\<lambda>a b. compare_members a b \<le> 0) (sorted_members ps')"
    unfolding sorted_members_def
    by (rule sorted_js_sort [OF compare_members_trans compare_members_total])
  show "sorted_wrt (\<lambda>a b. compare_members a b \<le> 0) (sorted_members ps)"
    unfolding sorted_members_def
    by (rule sorted_js_sort [OF compare_members_trans compare_members_total])
  have "mset (map snd ps') = mset (map snd ps)" using perm by (metis mset_map)
  then show "mset (sorted_members ps') = mset (sorted_members ps)"
    unfolding sorted_members_def by (simp add: mset_js_sort mset_Object_values)
  have "set (sorted_members ps') = snd ` set ps"
  proof -
    have "set_mset (mset (sorted_members ps')) = set_mset (mset (map snd ps))"
      unfolding sorted_members_def using perm
      by (simp add: mset_js_sort mset_Object_values)
    then show ?thesis by simp
  qed
  then show "\<And>a b. a \<in> set (sorted_members ps') \<Longrightarrow> b \<in> set (sorted_members ps') \<Longrightarrow>
      compare_members a b \<le> 0 \<Longrightarrow> compare_members b a \<le> 0 \<Longrightarrow> a = b"
    using no_ties compare_members_sign by (metis leD order_le_less)
qed



section \<open>The tables of the days: properties\<close>

lemma day_rows_no_header: "filter (\<lambda>w. w = DayHeader day) (day_rows cs) = []"
  unfolding day_rows_def by (simp add: filter_empty_conv day_row_def split_def)

lemma day_table_defined:
  "avgs day = Some avg \<Longrightarrow>
   day_table stats avgs day =
     (if dayCompletions stats day = [] then ([], None)
      else (DayHeader day # day_rows (dayCompletions stats day) @
              [DayAverageRow (duration_cell (avgP1 avg)) (duration_cell (avgP2 avg))], None))"
  by (simp add: day_table_def Let_def)

lemma day_table_headers:
  "length (filter (\<lambda>w. w = DayHeader day) (fst (day_table stats avgs d))) =
     (if d = day \<and> dayCompletions stats d \<noteq> [] then 1 else 0)"
  by (cases "avgs d") (auto simp: day_table_def Let_def day_rows_no_header)

lemma dailyBreakdown_concat:
  "\<forall>d \<in> set ds. avgs d \<noteq> None \<Longrightarrow>
   dailyBreakdown stats avgs ds = (concat (map (\<lambda>d. fst (day_table stats avgs d)) ds), None)"
proof (induction ds)
  case Nil
  then show ?case by simp
next
  case (Cons d ds)
  then obtain avg where "avgs d = Some avg" by auto
  then have "snd (day_table stats avgs d) = None"
    by (simp add: day_table_defined)
  with Cons show ?case
    by (cases "day_table stats avgs d") simp
qed

lemma headers_concat:
  "distinct ds \<Longrightarrow>
   length (filter (\<lambda>w. w = DayHeader day)
      (concat (map (\<lambda>d. fst (day_table stats avgs d)) ds))) =
     (if day \<in> set ds \<and> dayCompletions stats day \<noteq> [] then 1 else 0)"
  by (induction ds) (auto simp: day_table_headers)

lemma map_filter_completion_of:
  "List.map_filter (completion_of day) stats =
     map (\<lambda>m. \<lparr>name_c = name_s m, p1 = the (get_part1 m day), p2 = get_part2 m day\<rparr>)
       (filter (\<lambda>m. get_part1 m day \<noteq> None) stats)"
  by (induction stats) (auto simp: completion_of_def split: option.splits)

lemma dayCompletions_mset:
  "mset (dayCompletions stats day) =
     mset (map (\<lambda>m. \<lparr>name_c = name_s m, p1 = the (get_part1 m day), p2 = get_part2 m day\<rparr>)
       (filter (\<lambda>m. get_part1 m day \<noteq> None) stats))"
  unfolding dayCompletions_def by (simp add: mset_js_sort map_filter_completion_of)

lemma dayCompletions_empty:
  "dayCompletions stats day = [] \<longleftrightarrow> (\<forall>m \<in> set stats. get_part1 m day = None)"
proof -
  have "dayCompletions stats day = [] \<longleftrightarrow> mset (dayCompletions stats day) = {#}"
    by simp
  also have "\<dots> \<longleftrightarrow> filter (\<lambda>m. get_part1 m day \<noteq> None) stats = []"
    unfolding dayCompletions_mset by (simp only: mset_zero_iff map_is_Nil_conv)
  also have "\<dots> \<longleftrightarrow> (\<forall>m \<in> set stats. \<not> get_part1 m day \<noteq> None)"
    by (rule filter_empty_conv)
  also have "\<dots> \<longleftrightarrow> (\<forall>m \<in> set stats. get_part1 m day = None)"
    by simp
  finally show ?thesis .
qed

lemma dayCompletions_sorted: "sorted (map p1 (dayCompletions stats day))"
proof -
  have "sorted_wrt (\<lambda>a b. p1 a - p1 b \<le> 0) (dayCompletions stats day)"
    unfolding dayCompletions_def by (rule sorted_js_sort) auto
  then show ?thesis by (simp add: sorted_map)
qed

lemma dayCompletions_length:
  "length (dayCompletions stats day) = length (filter (\<lambda>m. get_part1 m day \<noteq> None) stats)"
proof -
  have "length (dayCompletions stats day) =
      length (map (\<lambda>m. \<lparr>name_c = name_s m, p1 = the (get_part1 m day), p2 = get_part2 m day\<rparr>)
       (filter (\<lambda>m. get_part1 m day \<noteq> None) stats))"
    by (rule mset_eq_length) (rule dayCompletions_mset)
  then show ?thesis by (simp only: length_map)
qed

text \<open>
  The loop over the days, for every list of participant statistics and every day
  from 1 to \<open>num_days\<close>: the loop ends normally; a day on which no participant has a
  part-1 offset writes nothing; a day on which some participant has one writes its
  header exactly once, followed by one row for each such participant, in ascending
  order of the part-1 offset, and by the row of averages. For the statistics that
  the script builds from a member of the snapshot, the part-1 offset is the one
  computed from the member's part-1 timestamp of the day.
\<close>

lemma dailyBreakdown_tables:
  "1 \<le> day \<and> day \<le> n \<longrightarrow>
     dailyBreakdown stats (dayAverages stats n) [1..n] =
       (concat (map (\<lambda>d. fst (day_table stats (dayAverages stats n) d)) [1..n]), None) \<and>
     ((\<forall>m \<in> set stats. get_part1 m day = None) \<longrightarrow>
        day_table stats (dayAverages stats n) day = ([], None) \<and>
        DayHeader day \<notin> set (fst (dailyBreakdown stats (dayAverages stats n) [1..n]))) \<and>
     ((\<exists>m \<in> set stats. get_part1 m day \<noteq> None) \<longrightarrow>
        length (filter (\<lambda>w. w = DayHeader day)
          (fst (dailyBreakdown stats (dayAverages stats n) [1..n]))) = 1 \<and>
        day_table stats (dayAverages stats n) day =
          (DayHeader day # day_rows (dayCompletions stats day) @
             [DayAverageRow (duration_cell (avgP1 (day_average stats day)))
                (duration_cell (avgP2 (day_average stats day)))], None)) \<and>
     mset (dayCompletions stats day) =
       mset (map (\<lambda>m. \<lparr>name_c = name_s m, p1 = the (get_part1 m day), p2 = get_part2 m day\<rparr>)
         (filter (\<lambda>m. get_part1 m day \<noteq> None) stats)) \<and>
     sorted (map p1 (dayCompletions stats day)) \<and>
     length (day_rows (dayCompletions stats day)) =
       length (filter (\<lambda>m. get_part1 m day \<noteq> None) stats) \<and>
     get_part1 (member_stats n member) day =
       (case completion_day_level member day of
          None \<Rightarrow> None
        | Some dayData \<Rightarrow> offset (star1 dayData) (getPuzzleUnlock day))"
proof
  assume range: "1 \<le> day \<and> day \<le> n"
  let ?avgs = "dayAverages stats n"
  let ?out = "concat (map (\<lambda>d. fst (day_table stats ?avgs d)) [1..n])"
  have "\<forall>d \<in> set [1..n]. ?avgs d \<noteq> None"
    by (simp add: dayAverages_apply)
  then have whole: "dailyBreakdown stats ?avgs [1..n] = (?out, None)"
    by (rule dailyBreakdown_concat)
  have avg: "?avgs day = Some (day_average stats day)"
    using range by (simp add: dayAverages_apply)
  have count: "length (filter (\<lambda>w. w = DayHeader day) ?out) =
      (if dayCompletions stats day \<noteq> [] then 1 else 0)"
    using range by (simp add: headers_concat)
  have none: "(\<forall>m \<in> set stats. get_part1 m day = None) \<longrightarrow>
        day_table stats ?avgs day = ([], None) \<and>
        DayHeader day \<notin> set (fst (dailyBreakdown stats ?avgs [1..n]))"
  proof
    assume "\<forall>m \<in> set stats. get_part1 m day = None"
    then have e: "dayCompletions stats day = []"
      by (simp add: dayCompletions_empty)
    with count have "filter (\<lambda>w. w = DayHeader day) ?out = []"
      by simp
    then have "DayHeader day \<notin> set ?out"
      unfolding filter_empty_conv by blast
    with e avg whole show "day_table stats ?avgs day = ([], None) \<and>
        DayHeader day \<notin> set (fst (dailyBreakdown stats ?avgs [1..n]))"
      by (simp add: day_table_defined)
  qed
  have some: "(\<exists>m \<in> set stats. get_part1 m day \<noteq> None) \<longrightarrow>
        length (filter (\<lambda>w. w = DayHeader day) (fst (dailyBreakdown stats ?avgs [1..n]))) = 1 \<and>
        day_table stats ?avgs day =
          (DayHeader day # day_rows (dayCompletions stats day) @
             [DayAverageRow (duration_cell (avgP1 (day_average stats day)))
                (duration_cell (avgP2 (day_average stats day)))], None)"
  proof
    assume "\<exists>m \<in> set stats. get_part1 m day \<noteq> None"
    then have e: "dayCompletions stats day \<noteq> []"
      by (simp add: dayCompletions_empty)
    with count whole avg show
      "length (filter (\<lambda>w. w = DayHeader day) (fst (dailyBreakdown stats ?avgs [1..n]))) = 1 \<and>
        day_table stats ?avgs day =
          (DayHeader day # day_rows (dayCompletions stats day) @
             [DayAverageRow (duration_cell (avgP1 (day_average stats day)))
                (duration_cell (avgP2 (day_average stats day)))], None)"
      by (simp add: day_table_defined)
  qed
  have len: "length (day_rows (dayCompletions stats day)) =
       length (filter (\<lambda>m. get_part1 m day \<noteq> None) stats)"
    by (simp add: day_rows_def dayCompletions_length)
  show "dailyBreakdown stats ?avgs [1..n] = (?out, None) \<and>
     ((\<forall>m \<in> set stats. get_part1 m day = None) \<longrightarrow>
        day_table stats ?avgs day = ([], None) \<and>
        DayHeader day \<notin> set (fst (dailyBreakdown stats ?avgs [1..n]))) \<and>
     ((\<exists>m \<in> set stats. get_part1 m day \<noteq> None) \<longrightarrow>
        length (filter (\<lambda>w. w = DayHeader day)
          (fst (dailyBreakdown stats ?avgs [1..n]))) = 1 \<and>
        day_table stats ?avgs day =
          (DayHeader day # day_rows (dayCompletions stats day) @
             [DayAverageRow (duration_cell (avgP1 (day_average stats day)))
                (duration_cell (avgP2 (day_average stats day)))], None)) \<and>
     mset (dayCompletions stats day) =
       mset (map (\<lambda>m. \<lparr>name_c = name_s m, p1 = the (get_part1 m day), p2 = get_part2 m day\<rparr>)
         (filter (\<lambda>m. get_part1 m day \<noteq> None) stats)) \<and>
     sorted (map p1 (dayCompletions stats day)) \<and>
     length (day_rows (dayCompletions stats day)) =
       length (filter (\<lambda>m. get_part1 m day \<noteq> None) stats) \<and>
     get_part1 (member_stats n member) day =
       (case completion_day_level member day of
          None \<Rightarrow> None
        | Some dayData \<Rightarrow> offset (star1 dayData) (getPuzzleUnlock day))"
    by (intro conjI whole none some len dayCompletions_mset dayCompletions_sorted
        get_part1_member_stats range)
qed

lemma dailyBreakdown_scenario:
  "(1 :: int) \<le> 1 \<and> (1 :: int) \<le> 2 \<and>
   (\<exists>m \<in> set scenario_stats. get_part1 m 1 \<noteq> None) \<and>
   map (\<lambda>m. get_part1 m 2) scenario_stats = [None, None] \<and>
   dailyBreakdown scenario_stats (dayAverages scenario_stats 2) [1..2] =
     ([DayHeader 1,
       DayRow ''   1'' ''Anonymous #102          '' ''        10s'' ''          -'',
       DayRow ''   2'' ''A                       '' ''      1m 5s'' ''     2m 10s'',
       DayAverageRow ''        38s'' ''     2m 10s''], None) \<and>
   length (filter (\<lambda>w. w = DayHeader 1)
     (fst (dailyBreakdown scenario_stats (dayAverages scenario_stats 2) [1..2]))) = 1 \<and>
   DayHeader 2 \<notin> set (fst (dailyBreakdown scenario_stats (dayAverages scenario_stats 2) [1..2])) \<and>
   sorted (map p1 (dayCompletions scenario_stats 1))"
proof -
  have r1: "(1 :: int) \<le> 1 \<and> (1 :: int) \<le> 2" and r2: "(1 :: int) \<le> 2 \<and> (2 :: int) \<le> 2"
    by simp_all
  have some: "\<exists>m \<in> set scenario_stats. get_part1 m 1 \<noteq> None"
    by code_simp
  have none2: "map (\<lambda>m. get_part1 m 2) scenario_stats = [None, None]"
    by code_simp
  have "\<forall>x \<in> set (map (\<lambda>m. get_part1 m 2) scenario_stats). x = None"
    unfolding none2 by simp
  then have none: "\<forall>m \<in> set scenario_stats. get_part1 m 2 = None"
    by simp
  have v: "dailyBreakdown scenario_stats (dayAverages scenario_stats 2) [1..2] =
     ([DayHeader 1,
       DayRow ''   1'' ''Anonymous #102          '' ''        10s'' ''          -'',
       DayRow ''   2'' ''A                       '' ''      1m 5s'' ''     2m 10s'',
       DayAverageRow ''        38s'' ''     2m 10s''], None)"
    by code_simp
  from r1 some dailyBreakdown_tables [of 1 2 scenario_stats]
  have a: "length (filter (\<lambda>w. w = DayHeader 1)
     (fst (dailyBreakdown scenario_stats (dayAverages scenario_stats 2) [1..2]))) = 1 \<and>
     sorted (map p1 (dayCompletions scenario_stats 1))"
    by blast
  from r2 none dailyBreakdown_tables [of 2 2 scenario_stats]
  have b: "DayHeader 2 \<notin>
     set (fst (dailyBreakdown scenario_stats (dayAverages scenario_stats 2) [1..2]))"
    by blast
  from r1 some none2 v a b show ?thesis by blast
qed

text \<open>
  Claim C1. The claim is that a day of the snapshot with at least one completion
  gets exactly one table, which lists exactly the completing participants. The
  script decides who completed a day by the part-1 offset, and the offset is lost
  when the part-1 timestamp is \<open>0\<close> (the truthiness test of claim C3). In the
  snapshot below the only member has completed both parts of day 1, with the part-1
  timestamp \<open>0\<close>: the script writes the overall table and no table for day 1.
\<close>

theorem day_table_missing_at_timestamp_zero:
  "members snapshot_ts0 = Some [(Index 7, member_ts0)] \<and>
   num_days snapshot_ts0 = 1 \<and>
   completion_day_level member_ts0 1 = Some \<lparr>star1 = Some 0, star2 = Some 1764565300\<rparr> \<and>
   render snapshot_ts0 =
     ([Summary ''2025'' 1 1, LeaderboardHeader,
       LeaderboardRow ''   1'' ''zero                    '' ''      2'' [FilledStar, FilledStar],
       LeaderboardFooter], None) \<and>
   filter (\<lambda>w. w = DayHeader 1) (fst (render snapshot_ts0)) = [] \<and>
   run ''12345'' ''abc123''
     (Inr \<lparr>ok = True, status = 200, statusText = ''OK'', json = Inr snapshot_ts0\<rparr>) =
     ([Log (''Fetching Advent of Code 2025 leaderboard...'' @ [CHR 0x0A]),
       Fetch ''https://adventofcode.com/2025/leaderboard/private/view/12345.json?view_key=abc123'',
       Summary ''2025'' 1 1, LeaderboardHeader,
       LeaderboardRow ''   1'' ''zero                    '' ''      2'' [FilledStar, FilledStar],
       LeaderboardFooter], 0)"
proof -
  have "members snapshot_ts0 = Some [(Index 7, member_ts0)] \<and> num_days snapshot_ts0 = 1"
    by (simp add: snapshot_ts0_def)
  moreover have "completion_day_level member_ts0 1 =
      Some \<lparr>star1 = Some 0, star2 = Some 1764565300\<rparr>"
    by (simp add: member_ts0_def)
  moreover have "render snapshot_ts0 =
     ([Summary ''2025'' 1 1, LeaderboardHeader,
       LeaderboardRow ''   1'' ''zero                    '' ''      2'' [FilledStar, FilledStar],
       LeaderboardFooter], None)"
    by code_simp
  moreover have "filter (\<lambda>w. w = DayHeader 1) (fst (render snapshot_ts0)) = []"
    by code_simp
  moreover have "run ''12345'' ''abc123''
     (Inr \<lparr>ok = True, status = 200, statusText = ''OK'', json = Inr snapshot_ts0\<rparr>) =
     ([Log (''Fetching Advent of Code 2025 leaderboard...'' @ [CHR 0x0A]),
       Fetch ''https://adventofcode.com/2025/leaderboard/private/view/12345.json?view_key=abc123'',
       Summary ''2025'' 1 1, LeaderboardHeader,
       LeaderboardRow ''   1'' ''zero                    '' ''      2'' [FilledStar, FilledStar],
       LeaderboardFooter], 0)"
    by code_simp
  ultimately show ?thesis by blast
qed

section \<open>The run: properties\<close>

lemma run_cases:
  "run i k fetched =
     (case fetched of
        Inl e \<Rightarrow> ([Log (''Fetching Advent of Code 2025 leaderboard...'' @ [CHR 0x0A]),
                    Fetch (leaderboard_url i k), ConsoleErrorValue e], 0)
      | Inr response \<Rightarrow>
          if \<not> ok response then
            ([Log (''Fetching Advent of Code 2025 leaderboard...'' @ [CHR 0x0A]),
              Fetch (leaderboard_url i k), ConsoleError (fetch_failed response)], 1)
          else
            (case json response of
               Inl e \<Rightarrow> ([Log (''Fetching Advent of Code 2025 leaderboard...'' @ [CHR 0x0A]),
                           Fetch (leaderboard_url i k), ConsoleErrorValue e], 0)
             | Inr data \<Rightarrow>
                 (case render data of
                    (out, None) \<Rightarrow>
                      ([Log (''Fetching Advent of Code 2025 leaderboard...'' @ [CHR 0x0A]),
                        Fetch (leaderboard_url i k)] @ out, 0)
                  | (out, Some e) \<Rightarrow>
                      ([Log (''Fetching Advent of Code 2025 leaderboard...'' @ [CHR 0x0A]),
                        Fetch (leaderboard_url i k)] @ out @ [ConsoleErrorValue e], 0))))"
  unfolding run_def main_def Let_def
  by (simp split: sum.splits prod.splits option.splits)

lemma run_exit_code:
  "snd (run i k fetched) = (case fetched of Inl e \<Rightarrow> 0 | Inr response \<Rightarrow> if ok response then 0 else 1)"
  unfolding run_cases by (simp split: sum.splits prod.splits option.splits)

lemma leaderboard_row_ok:
  "0 \<le> stars_s m \<Longrightarrow> stars_s m \<le> n * 2 \<Longrightarrow> \<exists>row. leaderboard_row n i m = Inr row"
  by (simp add: leaderboard_row_def repeat_def Let_def)

lemma leaderboard_rows_ok:
  "\<forall>m \<in> set stats. 0 \<le> stars_s m \<and> stars_s m \<le> n * 2 \<Longrightarrow>
   snd (leaderboard_rows n i stats) = None"
proof (induction stats arbitrary: i)
  case Nil
  then show ?case by simp
next
  case (Cons m stats)
  then obtain row where "leaderboard_row n i m = Inr row"
    using leaderboard_row_ok [of m n i] by auto
  moreover have "snd (leaderboard_rows n (Suc i) stats) = None"
    using Cons by simp
  ultimately show ?case
    by (cases "leaderboard_rows n (Suc i) stats") simp
qed

lemma set_sorted_members: "set (sorted_members ps) = snd ` set ps"
proof -
  have "set_mset (mset (sorted_members ps)) = set_mset (mset (map snd ps))"
    unfolding sorted_members_def by (simp add: mset_js_sort mset_Object_values)
  then show ?thesis by simp
qed

lemma render_returns:
  assumes "members data = Some ps"
    and "\<forall>m \<in> snd ` set ps. 0 \<le> stars m \<and> stars m \<le> num_days data * 2"
  shows "snd (render data) = None"
proof -
  let ?n = "num_days data"
  let ?stats = "build_memberStats (sorted_members ps) ?n"
  have "\<forall>m \<in> set ?stats. 0 \<le> stars_s m \<and> stars_s m \<le> ?n * 2"
    using assms(2) by (auto simp: build_memberStats_def member_stats_def set_sorted_members)
  then have rows: "snd (leaderboard_rows ?n 0 ?stats) = None"
    by (rule leaderboard_rows_ok)
  have "\<forall>d \<in> set [1..?n]. dayAverages ?stats ?n d \<noteq> None"
    by (simp add: dayAverages_apply)
  then have days: "snd (dailyBreakdown ?stats (dayAverages ?stats ?n) [1..?n]) = None"
    by (simp add: dailyBreakdown_concat)
  from rows days assms(1) show ?thesis
    unfolding render_def Let_def
    by (cases "leaderboard_rows ?n 0 ?stats";
        cases "dailyBreakdown ?stats (dayAverages ?stats ?n) [1..?n]") simp
qed

lemma main_returns:
  assumes "ok response" "json response = Inr data" "snd (render data) = None"
  shows "main i k (Inr response) =
     ([Log (''Fetching Advent of Code 2025 leaderboard...'' @ [CHR 0x0A]),
       Fetch (leaderboard_url i k)] @ fst (render data), Returned)"
  using assms unfolding main_def Let_def by (cases "render data") simp

lemma render_writes_days:
  assumes "members data = Some ps"
    and "\<forall>m \<in> snd ` set ps. 0 \<le> stars m \<and> stars m \<le> num_days data * 2"
  shows "\<exists>rows. render data =
     (Summary (event data) (length (sorted_members ps)) (num_days data) # LeaderboardHeader #
        rows @ LeaderboardFooter #
        fst (dailyBreakdown (build_memberStats (sorted_members ps) (num_days data))
          (dayAverages (build_memberStats (sorted_members ps) (num_days data)) (num_days data))
          [1..num_days data]), None)"
proof -
  let ?n = "num_days data"
  let ?stats = "build_memberStats (sorted_members ps) ?n"
  have "\<forall>m \<in> set ?stats. 0 \<le> stars_s m \<and> stars_s m \<le> ?n * 2"
    using assms(2) by (auto simp: build_memberStats_def member_stats_def set_sorted_members)
  then have rows: "snd (leaderboard_rows ?n 0 ?stats) = None"
    by (rule leaderboard_rows_ok)
  have "\<forall>d \<in> set [1..?n]. dayAverages ?stats ?n d \<noteq> None"
    by (simp add: dayAverages_apply)
  then have days: "snd (dailyBreakdown ?stats (dayAverages ?stats ?n) [1..?n]) = None"
    by (simp add: dailyBreakdown_concat)
  from rows days assms(1) show ?thesis
    unfolding render_def Let_def
    by (cases "leaderboard_rows ?n 0 ?stats";
        cases "dailyBreakdown ?stats (dayAverages ?stats ?n) [1..?n]") simp
qed

text \<open>
  Claim C8. If the response has a non-success status, the run writes the start line,
  makes its one request, reports \<open>Failed to fetch:\<close> with the numeric status and the
  status text on the error stream and exits with code 1: nothing of a table is
  written, and there is no second request. A run in which \<open>main\<close> returns normally
  exits with code 0; this is the case for every successful response whose body
  parses to a snapshot in which each member's stars lie between 0 and
  \<open>2 * num_days\<close>.
\<close>

theorem fetch_failure_exits:
  "(\<not> ok response \<longrightarrow>
      main i k (Inr response) =
        ([Log (''Fetching Advent of Code 2025 leaderboard...'' @ [CHR 0x0A]),
          Fetch (leaderboard_url i k),
          ConsoleError (''Failed to fetch: '' @ toString (status response) @ '' '' @
             statusText response)], Exited 1) \<and>
      run i k (Inr response) =
        ([Log (''Fetching Advent of Code 2025 leaderboard...'' @ [CHR 0x0A]),
          Fetch (leaderboard_url i k),
          ConsoleError (''Failed to fetch: '' @ toString (status response) @ '' '' @
             statusText response)], 1) \<and>
      snd (run i k (Inr response)) \<noteq> 0 \<and>
      filter is_table_output (fst (run i k (Inr response))) = [] \<and>
      length (filter is_fetch (fst (run i k (Inr response)))) = 1) \<and>
   (main i k fetched = (out, Returned) \<longrightarrow> run i k fetched = (out, 0)) \<and>
   (ok response \<and> json response = Inr data \<and> members data = Some ps \<and>
    (\<forall>m \<in> snd ` set ps. 0 \<le> stars m \<and> stars m \<le> num_days data * 2) \<longrightarrow>
      main i k (Inr response) =
        ([Log (''Fetching Advent of Code 2025 leaderboard...'' @ [CHR 0x0A]),
          Fetch (leaderboard_url i k)] @ fst (render data), Returned) \<and>
      snd (run i k (Inr response)) = 0)"
proof (intro conjI)
  show "\<not> ok response \<longrightarrow>
      main i k (Inr response) =
        ([Log (''Fetching Advent of Code 2025 leaderboard...'' @ [CHR 0x0A]),
          Fetch (leaderboard_url i k),
          ConsoleError (''Failed to fetch: '' @ toString (status response) @ '' '' @
             statusText response)], Exited 1) \<and>
      run i k (Inr response) =
        ([Log (''Fetching Advent of Code 2025 leaderboard...'' @ [CHR 0x0A]),
          Fetch (leaderboard_url i k),
          ConsoleError (''Failed to fetch: '' @ toString (status response) @ '' '' @
             statusText response)], 1) \<and>
      snd (run i k (Inr response)) \<noteq> 0 \<and>
      filter is_table_output (fst (run i k (Inr response))) = [] \<and>
      length (filter is_fetch (fst (run i k (Inr response)))) = 1"
    by (simp add: run_def main_def fetch_failed_def Let_def)
next
  show "main i k fetched = (out, Returned) \<longrightarrow> run i k fetched = (out, 0)"
    by (simp add: run_def)
next
  show "ok response \<and> json response = Inr data \<and> members data = Some ps \<and>
    (\<forall>m \<in> snd ` set ps. 0 \<le> stars m \<and> stars m \<le> num_days data * 2) \<longrightarrow>
      main i k (Inr response) =
        ([Log (''Fetching Advent of Code 2025 leaderboard...'' @ [CHR 0x0A]),
          Fetch (leaderboard_url i k)] @ fst (render data), Returned) \<and>
      snd (run i k (Inr response)) = 0"
  proof
    assume h: "ok response \<and> json response = Inr data \<and> members data = Some ps \<and>
      (\<forall>m \<in> snd ` set ps. 0 \<le> stars m \<and> stars m \<le> num_days data * 2)"
    then have "snd (render data) = None"
      by (intro render_returns [of data ps]) simp_all
    with h have "main i k (Inr response) =
        ([Log (''Fetching Advent of Code 2025 leaderboard...'' @ [CHR 0x0A]),
          Fetch (leaderboard_url i k)] @ fst (render data), Returned)"
      by (intro main_returns) simp_all
    moreover have "snd (run i k (Inr response)) = 0"
      using h by (simp add: run_exit_code)
    ultimately show "main i k (Inr response) =
        ([Log (''Fetching Advent of Code 2025 leaderboard...'' @ [CHR 0x0A]),
          Fetch (leaderboard_url i k)] @ fst (render data), Returned) \<and>
      snd (run i k (Inr response)) = 0"
      by simp
  qed
qed

theorem fetch_failure_exits_witness:
  "\<not> ok \<lparr>ok = False, status = 404, statusText = ''Not Found'', json = Inl SyntaxError\<rparr> \<and>
   run ''12345'' ''abc123''
     (Inr \<lparr>ok = False, status = 404, statusText = ''Not Found'', json = Inl SyntaxError\<rparr>) =
     ([Log (''Fetching Advent of Code 2025 leaderboard...'' @ [CHR 0x0A]),
       Fetch ''https://adventofcode.com/2025/leaderboard/private/view/12345.json?view_key=abc123'',
       ConsoleError ''Failed to fetch: 404 Not Found''], 1) \<and>
   main ''12345'' ''abc123''
     (Inr \<lparr>ok = True, status = 200, statusText = ''OK'', json = Inr scenario\<rparr>) =
     ([Log (''Fetching Advent of Code 2025 leaderboard...'' @ [CHR 0x0A]),
       Fetch ''https://adventofcode.com/2025/leaderboard/private/view/12345.json?view_key=abc123'',
       Summary ''2025'' 2 2, LeaderboardHeader,
       LeaderboardRow ''   1'' ''A                       '' ''      3''
         [FilledStar, FilledStar, HollowStar, HollowStar],
       LeaderboardRow ''   2'' ''Anonymous #102          '' ''      2''
         [FilledStar, HollowStar, HollowStar, HollowStar],
       LeaderboardFooter, DayHeader 1,
       DayRow ''   1'' ''Anonymous #102          '' ''        10s'' ''          -'',
       DayRow ''   2'' ''A                       '' ''      1m 5s'' ''     2m 10s'',
       DayAverageRow ''        38s'' ''     2m 10s''], Returned) \<and>
   run ''12345'' ''abc123''
     (Inr \<lparr>ok = True, status = 200, statusText = ''OK'', json = Inr scenario\<rparr>) =
     ([Log (''Fetching Advent of Code 2025 leaderboard...'' @ [CHR 0x0A]),
       Fetch ''https://adventofcode.com/2025/leaderboard/private/view/12345.json?view_key=abc123'',
       Summary ''2025'' 2 2, LeaderboardHeader,
       LeaderboardRow ''   1'' ''A                       '' ''      3''
         [FilledStar, FilledStar, HollowStar, HollowStar],
       LeaderboardRow ''   2'' ''Anonymous #102          '' ''      2''
         [FilledStar, HollowStar, HollowStar, HollowStar],
       LeaderboardFooter, DayHeader 1,
       DayRow ''   1'' ''Anonymous #102          '' ''        10s'' ''          -'',
       DayRow ''   2'' ''A                       '' ''      1m 5s'' ''     2m 10s'',
       DayAverageRow ''        38s'' ''     2m 10s''], 0)"
proof -
  let ?bad = "\<lparr>ok = False, status = 404, statusText = ''Not Found'', json = Inl SyntaxError\<rparr>"
  let ?good = "\<lparr>ok = True, status = 200, statusText = ''OK'', json = Inr scenario\<rparr>"
  let ?out = "[Log (''Fetching Advent of Code 2025 leaderboard...'' @ [CHR 0x0A]),
       Fetch ''https://adventofcode.com/2025/leaderboard/private/view/12345.json?view_key=abc123'',
       Summary ''2025'' 2 2, LeaderboardHeader,
       LeaderboardRow ''   1'' ''A                       '' ''      3''
         [FilledStar, FilledStar, HollowStar, HollowStar],
       LeaderboardRow ''   2'' ''Anonymous #102          '' ''      2''
         [FilledStar, HollowStar, HollowStar, HollowStar],
       LeaderboardFooter, DayHeader 1,
       DayRow ''   1'' ''Anonymous #102          '' ''        10s'' ''          -'',
       DayRow ''   2'' ''A                       '' ''      1m 5s'' ''     2m 10s'',
       DayAverageRow ''        38s'' ''     2m 10s'']"
  have n: "\<not> ok ?bad" by simp
  have t: "toString 404 = ''404''" by code_simp
  have u: "leaderboard_url ''12345'' ''abc123'' =
      ''https://adventofcode.com/2025/leaderboard/private/view/12345.json?view_key=abc123''"
    by (simp add: leaderboard_url_def)
  have m: "main ''12345'' ''abc123'' (Inr ?good) = (?out, Returned)"
    by code_simp
  from n fetch_failure_exits [of ?bad "''12345''" "''abc123''"] t u
  have a: "run ''12345'' ''abc123'' (Inr ?bad) =
     ([Log (''Fetching Advent of Code 2025 leaderboard...'' @ [CHR 0x0A]),
       Fetch ''https://adventofcode.com/2025/leaderboard/private/view/12345.json?view_key=abc123'',
       ConsoleError ''Failed to fetch: 404 Not Found''], 1)"
    by simp
  from m fetch_failure_exits [of ?bad "''12345''" "''abc123''" "Inr ?good" ?out]
  have b: "run ''12345'' ''abc123'' (Inr ?good) = (?out, 0)"
    by blast
  from n a m b show ?thesis by simp
qed

text \<open>
  Claim C10 (implicit). Whatever \<open>main\<close> throws is caught by the handler of the last
  line, which prints it with \<^verbatim>\<open>console.error\<close> and does nothing else, and the process
  then ends with exit code 0. So when the response is a success but its body is not
  JSON, or has no \<open>members\<close>, the run writes the start line, makes the request,
  prints the error and exits with code 0; and every run whose response is a
  success exits with code 0, whether \<open>main\<close> returned or threw.
\<close>

theorem thrown_error_exits_zero:
  "(main i k fetched = (out, Thrown e) \<longrightarrow> run i k fetched = (out @ [ConsoleErrorValue e], 0)) \<and>
   (ok response \<and> json response = Inl e \<longrightarrow>
      run i k (Inr response) =
        ([Log (''Fetching Advent of Code 2025 leaderboard...'' @ [CHR 0x0A]),
          Fetch (leaderboard_url i k), ConsoleErrorValue e], 0)) \<and>
   (ok response \<and> json response = Inr data \<and> members data = None \<longrightarrow>
      run i k (Inr response) =
        ([Log (''Fetching Advent of Code 2025 leaderboard...'' @ [CHR 0x0A]),
          Fetch (leaderboard_url i k), ConsoleErrorValue TypeError], 0)) \<and>
   (ok response \<longrightarrow> snd (run i k (Inr response)) = 0)"
proof (intro conjI impI)
  assume "main i k fetched = (out, Thrown e)"
  then show "run i k fetched = (out @ [ConsoleErrorValue e], 0)"
    by (simp add: run_def)
next
  assume "ok response \<and> json response = Inl e"
  then show "run i k (Inr response) =
        ([Log (''Fetching Advent of Code 2025 leaderboard...'' @ [CHR 0x0A]),
          Fetch (leaderboard_url i k), ConsoleErrorValue e], 0)"
    by (simp add: run_cases)
next
  assume "ok response \<and> json response = Inr data \<and> members data = None"
  then show "run i k (Inr response) =
        ([Log (''Fetching Advent of Code 2025 leaderboard...'' @ [CHR 0x0A]),
          Fetch (leaderboard_url i k), ConsoleErrorValue TypeError], 0)"
    by (simp add: run_cases render_def)
next
  assume "ok response"
  then show "snd (run i k (Inr response)) = 0"
    by (simp add: run_exit_code)
qed

theorem thrown_error_exits_zero_witness:
  "ok \<lparr>ok = True, status = 200, statusText = ''OK'', json = Inl SyntaxError\<rparr> \<and>
   json \<lparr>ok = True, status = 200, statusText = ''OK'', json = Inl SyntaxError\<rparr> =
     Inl SyntaxError \<and>
   main ''12345'' ''abc123''
     (Inr \<lparr>ok = True, status = 200, statusText = ''OK'', json = Inl SyntaxError\<rparr>) =
     ([Log (''Fetching Advent of Code 2025 leaderboard...'' @ [CHR 0x0A]),
       Fetch (leaderboard_url ''12345'' ''abc123'')], Thrown SyntaxError) \<and>
   run ''12345'' ''abc123''
     (Inr \<lparr>ok = True, status = 200, statusText = ''OK'', json = Inl SyntaxError\<rparr>) =
     ([Log (''Fetching Advent of Code 2025 leaderboard...'' @ [CHR 0x0A]),
       Fetch (leaderboard_url ''12345'' ''abc123''), ConsoleErrorValue SyntaxError], 0) \<and>
   ok \<lparr>ok = True, status = 200, statusText = ''OK'',
       json = Inr (scenario\<lparr>members := None\<rparr>)\<rparr> \<and>
   members (scenario\<lparr>members := None\<rparr>) = None \<and>
   run ''12345'' ''abc123''
     (Inr \<lparr>ok = True, status = 200, statusText = ''OK'',
            json = Inr (scenario\<lparr>members := None\<rparr>)\<rparr>) =
     ([Log (''Fetching Advent of Code 2025 leaderboard...'' @ [CHR 0x0A]),
       Fetch (leaderboard_url ''12345'' ''abc123''), ConsoleErrorValue TypeError], 0)"
proof -
  let ?r = "\<lparr>ok = True, status = 200, statusText = ''OK'', json = Inl SyntaxError\<rparr>"
  let ?s = "\<lparr>ok = True, status = 200, statusText = ''OK'',
       json = Inr (scenario\<lparr>members := None\<rparr>)\<rparr>"
  have h: "ok ?r \<and> json ?r = Inl SyntaxError"
    by simp
  have m: "main ''12345'' ''abc123'' (Inr ?r) =
     ([Log (''Fetching Advent of Code 2025 leaderboard...'' @ [CHR 0x0A]),
       Fetch (leaderboard_url ''12345'' ''abc123'')], Thrown SyntaxError)"
    by (simp add: main_def)
  have g: "ok ?s \<and> json ?s = Inr (scenario\<lparr>members := None\<rparr>) \<and>
      members (scenario\<lparr>members := None\<rparr>) = None"
    by simp
  from h thrown_error_exits_zero [of "''12345''" "''abc123''" _ _ SyntaxError ?r]
  have a: "run ''12345'' ''abc123'' (Inr ?r) =
     ([Log (''Fetching Advent of Code 2025 leaderboard...'' @ [CHR 0x0A]),
       Fetch (leaderboard_url ''12345'' ''abc123''), ConsoleErrorValue SyntaxError], 0)"
    by blast
  from g thrown_error_exits_zero [of "''12345''" "''abc123''" _ _ _ ?s "scenario\<lparr>members := None\<rparr>"]
  have b: "run ''12345'' ''abc123'' (Inr ?s) =
     ([Log (''Fetching Advent of Code 2025 leaderboard...'' @ [CHR 0x0A]),
       Fetch (leaderboard_url ''12345'' ''abc123''), ConsoleErrorValue TypeError], 0)"
    by blast
  from h m g a b show ?thesis by blast
qed

section \<open>The overall table: properties\<close>

lemma leaderboard_row_eq:
  "leaderboard_row n i m = (if stars_ok n m then Inr (table_row n i m) else Inl RangeError)"
  by (auto simp: leaderboard_row_def repeat_def Let_def stars_ok_def table_row_def)

lemma leaderboard_rows_eq:
  "leaderboard_rows n i stats =
     (map (\<lambda>(j, m). table_row n j m) (enumerate i (takeWhile (stars_ok n) stats)),
      if list_all (stars_ok n) stats then None else Some RangeError)"
  by (induction stats arbitrary: i) (simp_all add: leaderboard_row_eq)

lemma day_rows_no_row: "filter is_leaderboard_row (day_rows cs) = []"
  unfolding day_rows_def by (simp add: filter_empty_conv day_row_def split_def)

lemma day_table_no_row: "filter is_leaderboard_row (fst (day_table stats avgs d)) = []"
  by (cases "avgs d") (simp_all add: day_table_def Let_def day_rows_no_row)

lemma dailyBreakdown_no_row:
  "filter is_leaderboard_row (fst (dailyBreakdown stats avgs ds)) = []"
proof (induction ds)
  case Nil
  then show ?case by simp
next
  case (Cons d ds)
  have "filter is_leaderboard_row (fst (day_table stats avgs d)) = []"
    by (rule day_table_no_row)
  with Cons show ?case
    by (cases "day_table stats avgs d"; cases "dailyBreakdown stats avgs ds")
      (auto split: option.splits)
qed

lemma rows_are_rows:
  "filter is_leaderboard_row (map (\<lambda>(j, m). table_row n j m) xs) =
   map (\<lambda>(j, m). table_row n j m) xs"
  by (induction xs) (auto simp: table_row_def)

lemma render_rows:
  assumes "members data = Some ps"
  shows "filter is_leaderboard_row (fst (render data)) =
     map (\<lambda>(j, m). table_row (num_days data) j m)
       (enumerate 0 (takeWhile (stars_ok (num_days data))
          (map (member_stats (num_days data)) (sorted_members ps))))"
proof -
  let ?n = "num_days data"
  let ?stats = "build_memberStats (sorted_members ps) ?n"
  have d: "filter is_leaderboard_row
      (fst (dailyBreakdown ?stats (dayAverages ?stats ?n) [1..?n])) = []"
    by (rule dailyBreakdown_no_row)
  show ?thesis
    using assms d unfolding render_def Let_def leaderboard_rows_eq
    by (cases "dailyBreakdown ?stats (dayAverages ?stats ?n) [1..?n]")
      (simp add: rows_are_rows build_memberStats_def)
qed

lemma enumerate_map_stats:
  "map (\<lambda>(j, m). f j m) (enumerate i (map g xs)) = map (\<lambda>(j, m). f j (g m)) (enumerate i xs)"
  by (induction xs arbitrary: i) simp_all

lemma render_rows_all:
  assumes "members data = Some ps"
    and "\<forall>m \<in> snd ` set ps. 0 \<le> stars m \<and> stars m \<le> num_days data * 2"
  shows "filter is_leaderboard_row (fst (render data)) =
     map (\<lambda>(j, m). table_row (num_days data) j (member_stats (num_days data) m))
       (enumerate 0 (sorted_members ps))"
proof -
  let ?n = "num_days data"
  have "\<forall>s \<in> set (map (member_stats ?n) (sorted_members ps)). stars_ok ?n s"
    using assms(2) by (auto simp: stars_ok_def member_stats_def set_sorted_members)
  then have "takeWhile (stars_ok ?n) (map (member_stats ?n) (sorted_members ps)) =
      map (member_stats ?n) (sorted_members ps)"
    by (simp only: takeWhile_eq_all_conv) 
  then show ?thesis
    using render_rows [OF assms(1)] by (simp only: enumerate_map_stats)
qed





text \<open>
  Claim C2. The overall table is ordered by the three-key comparator: the comparator
  is negative exactly when the first participant ranks before the second (higher
  score; on a tie more stars; on a tie an earlier last star), zero exactly when the
  two are tied on all three keys, and positive exactly when the second ranks before
  the first. It is a total preorder (reflexive, total, transitive), and the sorted
  list holds exactly the members of the snapshot, with no participant placed after
  one that it ranks before. The rows of the overall table that the script writes
  are the rows of the members in this sorted order, numbered from 1: all of them
  when every member's stars lie between 0 and \<open>2 * num_days\<close>, and otherwise those
  before the first member whose stars do not.
\<close>

theorem sorted_members_order:
  "(compare_members a b < 0 \<longleftrightarrow> spec_before a b) \<and>
   (compare_members a b = 0 \<longleftrightarrow> tied a b) \<and>
   (0 < compare_members a b \<longleftrightarrow> spec_before b a) \<and>
   compare_members a a \<le> 0 \<and>
   (compare_members a b \<le> 0 \<or> compare_members b a \<le> 0) \<and>
   (compare_members a b \<le> 0 \<and> compare_members b c \<le> 0 \<longrightarrow> compare_members a c \<le> 0) \<and>
   mset (sorted_members ps) = mset (map snd ps) \<and>
   sorted_wrt (\<lambda>x y. compare_members x y \<le> 0) (sorted_members ps) \<and>
   sorted_wrt (\<lambda>x y. \<not> spec_before y x) (sorted_members ps) \<and>
   (members data = Some ps \<longrightarrow>
      filter is_leaderboard_row (fst (render data)) =
        map (\<lambda>(i, m). table_row (num_days data) i m)
          (enumerate 0 (takeWhile (stars_ok (num_days data))
             (map (member_stats (num_days data)) (sorted_members ps))))) \<and>
   (members data = Some ps \<and>
    (\<forall>m \<in> snd ` set ps. 0 \<le> stars m \<and> stars m \<le> num_days data * 2) \<longrightarrow>
      filter is_leaderboard_row (fst (render data)) =
        map (\<lambda>(i, m). table_row (num_days data) i (member_stats (num_days data) m))
          (enumerate 0 (sorted_members ps)) \<and>
      snd (render data) = None)"
proof -
  have s: "sorted_wrt (\<lambda>x y. compare_members x y \<le> 0) (sorted_members ps)"
    unfolding sorted_members_def
    by (rule sorted_js_sort [OF compare_members_trans compare_members_total])
  then have s': "sorted_wrt (\<lambda>x y. \<not> spec_before y x) (sorted_members ps)"
    by (simp only: compare_members_le)
  have m: "mset (sorted_members ps) = mset (map snd ps)"
    unfolding sorted_members_def by (simp add: mset_js_sort mset_Object_values)
  have r: "compare_members a a \<le> 0"
    by (simp add: compare_members_def)
  have t1: "members data = Some ps \<longrightarrow>
      filter is_leaderboard_row (fst (render data)) =
        map (\<lambda>(i, m). table_row (num_days data) i m)
          (enumerate 0 (takeWhile (stars_ok (num_days data))
             (map (member_stats (num_days data)) (sorted_members ps))))"
    using render_rows [of data ps] by blast
  have t2: "members data = Some ps \<and>
    (\<forall>m \<in> snd ` set ps. 0 \<le> stars m \<and> stars m \<le> num_days data * 2) \<longrightarrow>
      filter is_leaderboard_row (fst (render data)) =
        map (\<lambda>(i, m). table_row (num_days data) i (member_stats (num_days data) m))
          (enumerate 0 (sorted_members ps)) \<and>
      snd (render data) = None"
    using render_rows_all [of data ps] render_returns [of data ps] by blast
  have ord: "(compare_members a b < 0 \<longleftrightarrow> spec_before a b) \<and>
   (compare_members a b = 0 \<longleftrightarrow> tied a b) \<and>
   (0 < compare_members a b \<longleftrightarrow> spec_before b a) \<and>
   compare_members a a \<le> 0 \<and>
   (compare_members a b \<le> 0 \<or> compare_members b a \<le> 0) \<and>
   (compare_members a b \<le> 0 \<and> compare_members b c \<le> 0 \<longrightarrow> compare_members a c \<le> 0)"
    using r compare_members_sign [of a b] compare_members_total [of a b]
      compare_members_trans [of a b c]
    by blast
  show ?thesis
    using ord m s s' t1 t2 by (elim conjE, intro conjI) assumption+
qed

theorem sorted_members_order_witness:
  "compare_members tie_x early_a \<le> 0 \<and> compare_members early_a early_b \<le> 0 \<and>
   compare_members tie_x early_b \<le> 0 \<and>
   spec_before tie_x early_a \<and>
   sorted_members [(Index 2, early_b), (Index 7, tie_x), (Index 1, early_a)] =
     [tie_x, early_a, early_b] \<and>
   sorted_wrt (\<lambda>x y. \<not> spec_before y x)
     (sorted_members [(Index 2, early_b), (Index 7, tie_x), (Index 1, early_a)]) \<and>
   members scenario = Some [(Index 102, solver_B), (Index 101, solver_A)] \<and>
   sorted_members [(Index 102, solver_B), (Index 101, solver_A)] = [solver_A, solver_B] \<and>
   filter is_leaderboard_row (fst (render scenario)) =
     [LeaderboardRow ''   1'' ''A                       '' ''      3''
        [FilledStar, FilledStar, HollowStar, HollowStar],
      LeaderboardRow ''   2'' ''Anonymous #102          '' ''      2''
        [FilledStar, HollowStar, HollowStar, HollowStar]] \<and>
   snd (render scenario) = None"
proof -
  let ?ps = "[(Index 2, early_b), (Index 7, tie_x), (Index 1, early_a)]"
  let ?qs = "[(Index 102, solver_B), (Index 101, solver_A)]"
  have c: "compare_members tie_x early_a \<le> 0 \<and> compare_members early_a early_b \<le> 0"
    by (simp add: compare_members_def tie_x_def early_a_def early_b_def)
  have v: "sorted_members ?ps = [tie_x, early_a, early_b]"
    by (simp add: sorted_members_def Object_values_def js_sort_def compare_members_def
        tie_x_def early_a_def early_b_def)
  from c sorted_members_order [of tie_x early_a early_b ?ps scenario]
  have o: "compare_members tie_x early_b \<le> 0 \<and> spec_before tie_x early_a \<and>
    sorted_wrt (\<lambda>x y. \<not> spec_before y x) (sorted_members ?ps)"
    by (simp add: compare_members_def tie_x_def early_a_def)
  have q: "members scenario = Some ?qs"
    by (simp add: scenario_def)
  have w: "sorted_members ?qs = [solver_A, solver_B]"
    by (simp add: sorted_members_def Object_values_def js_sort_def compare_members_def
        solver_A_def solver_B_def)
  have range: "\<forall>m \<in> snd ` set ?qs. 0 \<le> stars m \<and> stars m \<le> num_days scenario * 2"
    by (simp add: scenario_def solver_A_def solver_B_def)
  from q range sorted_members_order [of solver_A solver_B solver_A ?qs scenario]
  have rows: "filter is_leaderboard_row (fst (render scenario)) =
        map (\<lambda>(i, m). table_row (num_days scenario) i (member_stats (num_days scenario) m))
          (enumerate 0 (sorted_members ?qs)) \<and>
      snd (render scenario) = None"
    by blast
  have e: "map (\<lambda>(i, m). table_row (num_days scenario) i (member_stats (num_days scenario) m))
          (enumerate 0 [solver_A, solver_B]) =
     [LeaderboardRow ''   1'' ''A                       '' ''      3''
        [FilledStar, FilledStar, HollowStar, HollowStar],
      LeaderboardRow ''   2'' ''Anonymous #102          '' ''      2''
        [FilledStar, HollowStar, HollowStar, HollowStar]]"
    by code_simp
  from rows have "filter is_leaderboard_row (fst (render scenario)) =
     [LeaderboardRow ''   1'' ''A                       '' ''      3''
        [FilledStar, FilledStar, HollowStar, HollowStar],
      LeaderboardRow ''   2'' ''Anonymous #102          '' ''      2''
        [FilledStar, HollowStar, HollowStar, HollowStar]] \<and>
   snd (render scenario) = None"
    unfolding w e by simp
  with c v o q w show ?thesis by blast
qed



end
